theory Spec2Isabelle
  imports Complex_Main
begin

section \<open>Data model\<close>

text \<open>
  The repository holds two modules with overlapping logic:
  \<^item> \<^verbatim>\<open>src/services/scoringAlgorithms.ts\<close>: the configurable scorers
    (\<^verbatim>\<open>SCORING_CONFIG\<close>, \<^verbatim>\<open>calculateLanguageScores\<close>, \<^verbatim>\<open>calculateRepoScore\<close>,
    \<^verbatim>\<open>calculateArchetype\<close>, \<^verbatim>\<open>calculateProductivity\<close>);
  \<^item> \<^verbatim>\<open>src/services/githubService.ts\<close>: \<^verbatim>\<open>fetchUserStory\<close> with its own
    \<^verbatim>\<open>getProductivityTime\<close>, \<^verbatim>\<open>calculateArchetype\<close> and an inline
    \<^verbatim>\<open>calculateRepoScore\<close>.
  Functions of the first module that share a name with one of the second carry the
  suffix \<open>_sa\<close>, those of the second the suffix \<open>_gs\<close>.

  JavaScript numbers are modelled as follows: counts delivered by the GitHub API
  (stars, forks, watchers, size, open issues) are \<open>nat\<close>; daily contribution counts,
  totals and histogram slots are \<open>int\<close>; scores, weights and ratios are \<open>real\<close>.
  The scorers come in two forms: in exact arithmetic (\<open>calculateRepoScore_sa\<close>,
  \<open>calculateRepoScore_gs\<close>), and with every arithmetic result passed through a rounding
  function (\<open>calculateRepoScore_sa_fp\<close>, \<open>calculateRepoScore_gs_fp\<close>), which is
  \<open>double\<close> for the IEEE 754 binary64 arithmetic of the code. A timestamp is the \<open>int\<close>
  number of milliseconds that \<^verbatim>\<open>new Date(s).getTime()\<close> gives for the field's string. The
  clock value read by \<^verbatim>\<open>new Date()\<close> is an explicit argument \<open>now\<close>.

  A repository's description, the one string whose characters the code inspects, is a list
  of UTF-16 code units (\<open>jsString\<close>); names, languages, topics and labels, which are only
  compared and copied, are \<open>string\<close>.
\<close>

type_synonym jsString = "nat list"

text \<open>The code units of an ASCII literal.\<close>

definition utf16 :: "string \<Rightarrow> jsString" where
  "utf16 s = map of_char s"

text \<open>An entry of the language map of \<^verbatim>\<open>calculateLanguageScores\<close>
  (scoringAlgorithms.ts, lines 36-41).\<close>

record LanguageScore =
  name :: string
  weight :: real
  repoCount :: nat
  recentCount :: nat

text \<open>The report's \<^verbatim>\<open>Repository\<close> value (githubService.ts, lines 302-316).\<close>

record Repository =
  name :: string
  description :: jsString
  stars :: nat
  language :: string
  topics :: "string list"
  url :: string

text \<open>A repository object of the GitHub REST API, with the fields the code reads.
  The field \<^verbatim>\<open>size\<close> is called \<open>size_kb\<close>.\<close>

record Repo =
  name :: string
  description :: "jsString option"
  stargazers_count :: nat
  forks_count :: nat
  watchers_count :: nat
  size_kb :: nat
  open_issues_count :: nat
  language :: "string option"
  topics :: "string list"
  fork :: bool
  archived :: bool
  created_at :: int
  pushed_at :: int
  html_url :: string

text \<open>\<^verbatim>\<open>SCORING_CONFIG.repo\<close> (scoringAlgorithms.ts, lines 9-33); the nested objects
  \<^verbatim>\<open>stars\<close>, \<^verbatim>\<open>forks\<close> and \<^verbatim>\<open>recency\<close> are flattened.\<close>

record RepoConfig =
  stars_maxPoints :: real
  stars_logMultiplier :: real
  forks_maxPoints :: real
  forks_logMultiplier :: real
  recency_maxPoints :: real
  originalWork :: real
  hasDescription :: real
  hasTopics :: real
  hasLanguage :: real
  watchersMultiplier :: real
  watchersMax :: real
  archivedPenalty :: real
  sizeLogMultiplier :: real
  sizeMaxPoints :: real
  openIssuesLogMultiplier :: real
  openIssuesMaxPoints :: real
  createdIn2025Bonus :: real

definition SCORING_CONFIG_repo :: RepoConfig where
  "SCORING_CONFIG_repo =
     \<lparr>stars_maxPoints = 35, stars_logMultiplier = 12,
      forks_maxPoints = 20, forks_logMultiplier = 6,
      recency_maxPoints = 0,
      originalWork = 20, hasDescription = 2, hasTopics = 2, hasLanguage = 3,
      watchersMultiplier = 0.5, watchersMax = 5,
      archivedPenalty = - 20,
      sizeLogMultiplier = 3, sizeMaxPoints = 15,
      openIssuesLogMultiplier = 4, openIssuesMaxPoints = 8,
      createdIn2025Bonus = 10\<rparr>"

text \<open>\<^verbatim>\<open>new Date('2025-01-01')\<close>: midnight UTC of 1 January 2025, in milliseconds.\<close>

definition year2025Start :: int where
  "year2025Start = 1735689600000"

subsection \<open>JavaScript helpers\<close>

text \<open>\<^verbatim>\<open>String.prototype.trim\<close> strips the ECMAScript white space and line terminator
  code points from both ends: TAB, LF, VT, FF, CR, SP, NBSP, U+1680, U+2000 to U+200A,
  U+2028, U+2029, U+202F, U+205F, U+3000 and U+FEFF. All of them are single code units.\<close>

definition isWhiteSpace :: "nat \<Rightarrow> bool" where
  "isWhiteSpace c =
     (c \<in> set [0x0009, 0x000A, 0x000B, 0x000C, 0x000D, 0x0020, 0x00A0, 0x1680, 0x2028, 0x2029,
                0x202F, 0x205F, 0x3000, 0xFEFF]
      \<or> (0x2000 \<le> c \<and> c \<le> 0x200A))"

definition trim :: "jsString \<Rightarrow> jsString" where
  "trim s = rev (dropWhile isWhiteSpace (rev (dropWhile isWhiteSpace s)))"

text \<open>Truthiness of an optional string: \<^verbatim>\<open>null\<close> and \<^verbatim>\<open>""\<close> are falsy.\<close>

definition truthy :: "'a list option \<Rightarrow> bool" where
  "truthy s = (case s of None \<Rightarrow> False | Some t \<Rightarrow> t \<noteq> [])"

text \<open>\<^verbatim>\<open>repo.description && repo.description.trim().length > 10\<close>\<close>

definition longDescription :: "Repo \<Rightarrow> bool" where
  "longDescription repo =
     (case description repo of None \<Rightarrow> False
      | Some d \<Rightarrow> d \<noteq> [] \<and> 10 < length (trim d))"

text \<open>\<^verbatim>\<open>Math.log10\<close> on a positive argument.\<close>

definition log10 :: "real \<Rightarrow> real" where
  "log10 x = log 10 x"

section \<open>scoringAlgorithms.ts: calculateRepoScore\<close>

text \<open>Each definition below is one \<^verbatim>\<open>score += ...\<close> statement of
  \<^verbatim>\<open>calculateRepoScore\<close> (lines 92-155), in the order of the source.\<close>

definition starsPoints :: "RepoConfig \<Rightarrow> Repo \<Rightarrow> real" where
  "starsPoints config repo =
     min (log10 (real (stargazers_count repo) + 1) * stars_logMultiplier config)
         (stars_maxPoints config)"

definition forksPoints :: "RepoConfig \<Rightarrow> Repo \<Rightarrow> real" where
  "forksPoints config repo =
     min (log10 (real (forks_count repo) + 1) * forks_logMultiplier config)
         (forks_maxPoints config)"

definition recencyPoints :: "RepoConfig \<Rightarrow> Repo \<Rightarrow> real" where
  "recencyPoints config repo =
     (if year2025Start \<le> pushed_at repo \<and> 0 < recency_maxPoints config
      then recency_maxPoints config else 0)"

definition watchersPoints :: "RepoConfig \<Rightarrow> Repo \<Rightarrow> real" where
  "watchersPoints config repo =
     min (real (watchers_count repo) * watchersMultiplier config) (watchersMax config)"

definition sizePoints :: "RepoConfig \<Rightarrow> Repo \<Rightarrow> real" where
  "sizePoints config repo =
     (if 0 < size_kb repo
      then min (log10 (real (size_kb repo)) * sizeLogMultiplier config) (sizeMaxPoints config)
      else 0)"

definition openIssuesPoints :: "RepoConfig \<Rightarrow> Repo \<Rightarrow> real" where
  "openIssuesPoints config repo =
     (if 0 < open_issues_count repo
      then min (log10 (real (open_issues_count repo) + 1) * openIssuesLogMultiplier config)
               (openIssuesMaxPoints config)
      else 0)"

text \<open>The function reads the clock (\<^verbatim>\<open>const now = new Date()\<close>, line 95) and the global
  \<^verbatim>\<open>SCORING_CONFIG.repo\<close>; both are arguments here.\<close>

definition calculateRepoScore_sa :: "RepoConfig \<Rightarrow> int \<Rightarrow> Repo \<Rightarrow> real" where
  "calculateRepoScore_sa config now repo =
     0
     + starsPoints config repo
     + forksPoints config repo
     + recencyPoints config repo
     + (if \<not> fork repo then originalWork config else 0)
     + (if longDescription repo then hasDescription config else 0)
     + (if topics repo \<noteq> [] then hasTopics config else 0)
     + (if truthy (language repo) then hasLanguage config else 0)
     + watchersPoints config repo
     + (if archived repo then archivedPenalty config else 0)
     + sizePoints config repo
     + openIssuesPoints config repo
     + (if year2025Start \<le> created_at repo then createdIn2025Bonus config else 0)"

section \<open>githubService.ts: the inline calculateRepoScore of fetchUserStory\<close>

text \<open>Lines 219-269. The recency term reads the clock: \<^verbatim>\<open>now.getTime()\<close>.\<close>

definition recencyPoints_gs :: "int \<Rightarrow> Repo \<Rightarrow> real" where
  "recencyPoints_gs now repo =
     (if year2025Start \<le> pushed_at repo
      then (let daysSincePush = max 0 (real_of_int (now - pushed_at repo) / (1000 * 60 * 60 * 24))
            in max 0 (25 - daysSincePush / 15))
      else 0)"

definition calculateRepoScore_gs :: "int \<Rightarrow> Repo \<Rightarrow> real" where
  "calculateRepoScore_gs now repo =
     0
     + min (log10 (real (stargazers_count repo) + 1) * 10) 30
     + min (log10 (real (forks_count repo) + 1) * 5) 15
     + recencyPoints_gs now repo
     + (if \<not> fork repo then 15 else 0)
     + (if longDescription repo then 5 else 0)
     + (if topics repo \<noteq> [] then 5 else 0)
     + (if truthy (language repo) then 3 else 0)
     + min (real (watchers_count repo) * 0.5) 5
     - (if archived repo then 20 else 0)"

section \<open>The scorers in double arithmetic\<close>

text \<open>
  A JavaScript number is an IEEE 754 binary64 value, and every arithmetic operation
  returns the exact result rounded to the nearest such value, ties to the even
  significand. \<open>double\<close> is this rounding on the reals, with 53 significant bits and an
  unbounded exponent: overflow and subnormal numbers, which no score comes near, are left
  out. \<open>binade x\<close> is the exponent \<open>e\<close> with \<open>2 ^ e \<le> \<bar>x\<bar> < 2 ^ (e + 1)\<close>, and the doubles of
  that binade are the integer multiples of \<open>2 ^ (e - 52)\<close>.
\<close>

definition binade :: "real \<Rightarrow> int" where
  "binade x = \<lfloor>log 2 \<bar>x\<bar>\<rfloor>"

definition roundTiesToEven :: "real \<Rightarrow> int" where
  "roundTiesToEven y =
     (let f = \<lfloor>y\<rfloor>; r = y - of_int f
      in if r < 1 / 2 then f else if 1 / 2 < r then f + 1 else if even f then f else f + 1)"

definition double :: "real \<Rightarrow> real" where
  "double x =
     (if x = 0 then 0
      else of_int (roundTiesToEven (x / 2 powi (binade x - 52))) * 2 powi (binade x - 52))"

text \<open>
  The scorers with a rounding function \<open>rnd\<close> applied to the result of every addition,
  subtraction, multiplication and division and to the result of \<^verbatim>\<open>Math.log10\<close> (taken as
  correctly rounded); \<^verbatim>\<open>Math.min\<close> and \<^verbatim>\<open>Math.max\<close> are exact, and so are the numbers read
  from the record and the configuration and the constant \<^verbatim>\<open>1000 * 60 * 60 * 24\<close>. A
  statement \<^verbatim>\<open>score += t\<close> under a test that fails leaves the running score as it is.
  With \<open>rnd = double\<close> this is the arithmetic of the code; with the identity it is the
  exact arithmetic of \<open>calculateRepoScore_sa\<close> and \<open>calculateRepoScore_gs\<close>.
\<close>

text \<open>scoringAlgorithms.ts, lines 93-129: the running score before the archived test.\<close>

definition scoreBeforePenalty :: "(real \<Rightarrow> real) \<Rightarrow> RepoConfig \<Rightarrow> Repo \<Rightarrow> real" where
  "scoreBeforePenalty rnd config repo =
     (let s1 = rnd (0 + min (rnd (rnd (log10 (rnd (real (stargazers_count repo) + 1)))
                                * stars_logMultiplier config))
                            (stars_maxPoints config));
          s2 = rnd (s1 + min (rnd (rnd (log10 (rnd (real (forks_count repo) + 1)))
                                 * forks_logMultiplier config))
                             (forks_maxPoints config));
          s3 = (if year2025Start \<le> pushed_at repo \<and> 0 < recency_maxPoints config
                then rnd (s2 + recency_maxPoints config) else s2);
          s4 = (if \<not> fork repo then rnd (s3 + originalWork config) else s3);
          s5 = (if longDescription repo then rnd (s4 + hasDescription config) else s4);
          s6 = (if topics repo \<noteq> [] then rnd (s5 + hasTopics config) else s5);
          s7 = (if truthy (language repo) then rnd (s6 + hasLanguage config) else s6);
          s8 = rnd (s7 + min (rnd (real (watchers_count repo) * watchersMultiplier config))
                             (watchersMax config))
      in s8)"

text \<open>scoringAlgorithms.ts, lines 135-154: the statements after the archived test, from the
  running score \<open>s\<close>.\<close>

definition scoreAfterPenalty :: "(real \<Rightarrow> real) \<Rightarrow> RepoConfig \<Rightarrow> Repo \<Rightarrow> real \<Rightarrow> real" where
  "scoreAfterPenalty rnd config repo s =
     (let s10 = (if 0 < size_kb repo
                 then rnd (s + min (rnd (rnd (log10 (real (size_kb repo)))
                                      * sizeLogMultiplier config))
                                  (sizeMaxPoints config))
                 else s);
          s11 = (if 0 < open_issues_count repo
                 then rnd (s10 + min (rnd (rnd (log10 (rnd (real (open_issues_count repo) + 1)))
                                        * openIssuesLogMultiplier config))
                                    (openIssuesMaxPoints config))
                 else s10);
          s12 = (if year2025Start \<le> created_at repo
                 then rnd (s11 + createdIn2025Bonus config) else s11)
      in s12)"

text \<open>scoringAlgorithms.ts, lines 92-155, with the archived test of lines 131-133 between
  the two parts.\<close>

definition calculateRepoScore_sa_fp ::
  "(real \<Rightarrow> real) \<Rightarrow> RepoConfig \<Rightarrow> int \<Rightarrow> Repo \<Rightarrow> real" where
  "calculateRepoScore_sa_fp rnd config now repo =
     (let s8 = scoreBeforePenalty rnd config repo;
          s9 = (if archived repo then rnd (s8 + archivedPenalty config) else s8)
      in scoreAfterPenalty rnd config repo s9)"

text \<open>githubService.ts, lines 219-269; the archived test is the last statement.\<close>

definition calculateRepoScore_gs_fp :: "(real \<Rightarrow> real) \<Rightarrow> int \<Rightarrow> Repo \<Rightarrow> real" where
  "calculateRepoScore_gs_fp rnd now repo =
     (let s1 = rnd (0 + min (rnd (rnd (log10 (rnd (real (stargazers_count repo) + 1))) * 10)) 30);
          s2 = rnd (s1 + min (rnd (rnd (log10 (rnd (real (forks_count repo) + 1))) * 5)) 15);
          s3 = (if year2025Start \<le> pushed_at repo
                then (let daysSincePush =
                            max 0 (rnd (rnd (real_of_int now - real_of_int (pushed_at repo))
                                        / (1000 * 60 * 60 * 24)))
                      in rnd (s2 + max 0 (rnd (25 - rnd (daysSincePush / 15)))))
                else s2);
          s4 = (if \<not> fork repo then rnd (s3 + 15) else s3);
          s5 = (if longDescription repo then rnd (s4 + 5) else s4);
          s6 = (if topics repo \<noteq> [] then rnd (s5 + 5) else s5);
          s7 = (if truthy (language repo) then rnd (s6 + 3) else s6);
          s8 = rnd (s7 + min (rnd (real (watchers_count repo) * 0.5)) 5);
          s9 = (if archived repo then rnd (s8 - 20) else s8)
      in s9)"

section \<open>Productivity: time-of-day bucket\<close>

record ProductivityData =
  timeOfDay :: string
  peakHour :: int

text \<open>githubService.ts, lines 9-14.\<close>

definition getProductivityTime :: "int \<Rightarrow> string" where
  "getProductivityTime hour =
     (if 5 \<le> hour \<and> hour < 12 then ''Morning''
      else if 12 \<le> hour \<and> hour < 17 then ''Afternoon''
      else if 17 \<le> hour \<and> hour < 22 then ''Evening''
      else ''Late Night'')"

text \<open>githubService.ts, lines 319-323: the entries of \<^verbatim>\<open>hourCounts\<close> (hour, count), sorted
  by descending count; the sort is stable. The entries are given in the order of
  \<^verbatim>\<open>Object.entries\<close>.\<close>

definition productivity_gs :: "(int \<times> int) list \<Rightarrow> ProductivityData" where
  "productivity_gs hourCounts =
     (let sortedHours = sort_key (\<lambda>(h, c). - c) hourCounts;
          peak = (case sortedHours of [] \<Rightarrow> 14 | (h, c) # rest \<Rightarrow> h)
      in \<lparr>timeOfDay = getProductivityTime peak, peakHour = peak\<rparr>)"

text \<open>scoringAlgorithms.ts, \<^verbatim>\<open>calculateProductivity\<close>: the loop of lines 196-201 over the
  entries, then the bucket of lines 203-212.\<close>

fun peakLoop :: "int \<times> int \<Rightarrow> (int \<times> int) list \<Rightarrow> int \<times> int" where
  "peakLoop (peak, maxCount) [] = (peak, maxCount)"
| "peakLoop (peak, maxCount) ((hour, count) # rest) =
     (if count > maxCount then peakLoop (hour, count) rest
      else peakLoop (peak, maxCount) rest)"

definition timeOfDay_sa :: "int \<Rightarrow> string" where
  "timeOfDay_sa peak =
     (if 5 \<le> peak \<and> peak < 12 then ''Morning''
      else if 12 \<le> peak \<and> peak < 17 then ''Afternoon''
      else if 17 \<le> peak \<and> peak < 21 then ''Evening''
      else ''Late Night'')"

definition calculateProductivity :: "(int \<times> int) list \<Rightarrow> ProductivityData" where
  "calculateProductivity hourCounts =
     (let peak = fst (peakLoop (14, 0) hourCounts)
      in \<lparr>timeOfDay = timeOfDay_sa peak, peakHour = peak\<rparr>)"

section \<open>Archetype classifiers\<close>

text \<open>Labels and buckets are the strings of the code: the specification's Tinkerer is
  \<^verbatim>\<open>"The Tinkerer"\<close>, its LateNight is \<^verbatim>\<open>"Late Night"\<close>, and so on.\<close>

record ContributionBreakdown =
  commits :: int
  prs :: int
  issues :: int
  reviews :: int

record CommunityStats =
  followers :: int
  following :: int
  publicRepos :: int
  totalStars :: int

text \<open>Reading a JavaScript array: an index out of range gives \<^verbatim>\<open>undefined\<close>, and
  arithmetic on it gives \<^verbatim>\<open>NaN\<close> (\<open>None\<close>), which no comparison satisfies.\<close>

definition at_index :: "'a list \<Rightarrow> nat \<Rightarrow> 'a option" where
  "at_index xs i = (if i < length xs then Some (xs ! i) else None)"

definition exceeds :: "real option \<Rightarrow> real \<Rightarrow> bool" where
  "exceeds x bound = (case x of None \<Rightarrow> False | Some v \<Rightarrow> bound < v)"

definition weekendCommits :: "int list \<Rightarrow> int option" where
  "weekendCommits weekdayStats =
     (case at_index weekdayStats 0 of None \<Rightarrow> None
      | Some sun \<Rightarrow> (case at_index weekdayStats 6 of None \<Rightarrow> None
                     | Some sat \<Rightarrow> Some (sun + sat)))"

definition totalActivity :: "ContributionBreakdown \<Rightarrow> int" where
  "totalActivity stats = commits stats + prs stats + issues stats + reviews stats"

subsection \<open>githubService.ts, lines 18-81\<close>

definition prRatio :: "ContributionBreakdown \<Rightarrow> real" where
  "prRatio stats =
     (if 0 < totalActivity stats then real_of_int (prs stats) / real_of_int (totalActivity stats)
      else 0)"

definition reviewRatio :: "ContributionBreakdown \<Rightarrow> real" where
  "reviewRatio stats =
     (if 0 < totalActivity stats
      then real_of_int (reviews stats) / real_of_int (totalActivity stats) else 0)"

definition issueRatio :: "ContributionBreakdown \<Rightarrow> real" where
  "issueRatio stats =
     (if 0 < totalActivity stats
      then real_of_int (issues stats) / real_of_int (totalActivity stats) else 0)"

definition weekendRatio :: "int list \<Rightarrow> int \<Rightarrow> real option" where
  "weekendRatio weekdayStats totalCommits =
     (if 0 < totalCommits
      then map_option (\<lambda>w. real_of_int w / real_of_int totalCommits) (weekendCommits weekdayStats)
      else Some 0)"

definition calculateArchetype_gs ::
  "ContributionBreakdown \<Rightarrow> CommunityStats \<Rightarrow> int \<Rightarrow> ProductivityData \<Rightarrow> int list \<Rightarrow> string" where
  "calculateArchetype_gs stats community totalCommits productivity weekdayStats =
     (if 0.20 < prRatio stats \<and> 20 < prs stats then ''The Pull Request Pro''
      else if 0.10 < reviewRatio stats \<and> 10 < reviews stats then ''The Reviewer''
      else if exceeds (weekendRatio weekdayStats totalCommits) 0.35 \<and> 50 < totalCommits
        then ''The Weekend Warrior''
      else if timeOfDay productivity = ''Late Night'' \<and> 50 < totalCommits then ''The Night Owl''
      else if timeOfDay productivity = ''Morning'' \<and> 50 < totalCommits then ''The Early Bird''
      else if 1200 < totalCommits then ''The Grid Painter''
      else if 400 < totalCommits then ''The Consistent''
      else if 0.15 < issueRatio stats then ''The Planner''
      else if 500 < followers community \<or> 1000 < totalStars community
        then ''The Community Star''
      else ''The Tinkerer'')"

subsection \<open>scoringAlgorithms.ts, lines 159-187\<close>

text \<open>The parameter \<^verbatim>\<open>productivity\<close> has the type \<^verbatim>\<open>{ peakHour: number }\<close>: only the peak
  hour is passed.\<close>

definition prPercentage :: "ContributionBreakdown \<Rightarrow> real" where
  "prPercentage breakdown =
     (if 0 < totalActivity breakdown
      then real_of_int (prs breakdown) / real_of_int (totalActivity breakdown) * 100 else 0)"

definition reviewPercentage :: "ContributionBreakdown \<Rightarrow> real" where
  "reviewPercentage breakdown =
     (if 0 < totalActivity breakdown
      then real_of_int (reviews breakdown) / real_of_int (totalActivity breakdown) * 100 else 0)"

definition issuePercentage :: "ContributionBreakdown \<Rightarrow> real" where
  "issuePercentage breakdown =
     (if 0 < totalActivity breakdown
      then real_of_int (issues breakdown) / real_of_int (totalActivity breakdown) * 100 else 0)"

definition weekendPercentage :: "int list \<Rightarrow> real option" where
  "weekendPercentage weekdayStats =
     (let totalWeekCommits = foldl (+) 0 weekdayStats
      in if 0 < totalWeekCommits
         then map_option (\<lambda>w. real_of_int w / real_of_int totalWeekCommits * 100)
                (weekendCommits weekdayStats)
         else Some 0)"

definition calculateArchetype_sa ::
  "ContributionBreakdown \<Rightarrow> CommunityStats \<Rightarrow> int \<Rightarrow> int \<Rightarrow> int list \<Rightarrow> string" where
  "calculateArchetype_sa breakdown community totalCommits peak weekdayStats =
     (if 20 < prPercentage breakdown then ''The Pull Request Pro''
      else if 10 < reviewPercentage breakdown then ''The Reviewer''
      else if 22 \<le> peak \<or> peak \<le> 4 then ''The Night Owl''
      else if 5 \<le> peak \<and> peak \<le> 11 then ''The Early Bird''
      else if exceeds (weekendPercentage weekdayStats) 35 then ''The Weekend Warrior''
      else if 1200 \<le> totalCommits then ''The Grid Painter''
      else if 400 \<le> totalCommits then ''The Consistent''
      else if 15 < issuePercentage breakdown then ''The Planner''
      else if 500 \<le> followers community \<or> 1000 \<le> totalStars community
        then ''The Community Star''
      else ''The Tinkerer'')"

subsection \<open>The decision list as the specification words it\<close>

text \<open>An ordered list of (guard, label) pairs; the first pair whose guard holds gives the
  label, and the default is used when none holds.\<close>

fun firstSatisfied :: "(bool \<times> string) list \<Rightarrow> string \<Rightarrow> string" where
  "firstSatisfied [] dflt = dflt"
| "firstSatisfied ((guard, label) # rules) dflt =
     (if guard then label else firstSatisfied rules dflt)"

text \<open>The nine guarded rules of section 4.5 of the specification, in its order; the
  bucket names are the strings of the code.\<close>

definition specRules ::
  "ContributionBreakdown \<Rightarrow> CommunityStats \<Rightarrow> int \<Rightarrow> ProductivityData \<Rightarrow> int list
     \<Rightarrow> (bool \<times> string) list" where
  "specRules stats community totalCommits productivity weekdayStats =
     [(0.20 < prRatio stats \<and> 20 < prs stats, ''The Pull Request Pro''),
      (0.10 < reviewRatio stats \<and> 10 < reviews stats, ''The Reviewer''),
      (exceeds (weekendRatio weekdayStats totalCommits) 0.35 \<and> 50 < totalCommits,
         ''The Weekend Warrior''),
      (timeOfDay productivity = ''Late Night'' \<and> 50 < totalCommits, ''The Night Owl''),
      (timeOfDay productivity = ''Morning'' \<and> 50 < totalCommits, ''The Early Bird''),
      (1200 < totalCommits, ''The Grid Painter''),
      (400 < totalCommits, ''The Consistent''),
      (0.15 < issueRatio stats, ''The Planner''),
      (500 < followers community \<or> 1000 < totalStars community, ''The Community Star'')]"

text \<open>The order in which \<^verbatim>\<open>calculateArchetype\<close> of scoringAlgorithms.ts lists its rules.\<close>

definition rules_sa ::
  "ContributionBreakdown \<Rightarrow> CommunityStats \<Rightarrow> int \<Rightarrow> int \<Rightarrow> int list \<Rightarrow> (bool \<times> string) list" where
  "rules_sa breakdown community totalCommits peak weekdayStats =
     [(20 < prPercentage breakdown, ''The Pull Request Pro''),
      (10 < reviewPercentage breakdown, ''The Reviewer''),
      (22 \<le> peak \<or> peak \<le> 4, ''The Night Owl''),
      (5 \<le> peak \<and> peak \<le> 11, ''The Early Bird''),
      (exceeds (weekendPercentage weekdayStats) 35, ''The Weekend Warrior''),
      (1200 \<le> totalCommits, ''The Grid Painter''),
      (400 \<le> totalCommits, ''The Consistent''),
      (15 < issuePercentage breakdown, ''The Planner''),
      (500 \<le> followers community \<or> 1000 \<le> totalStars community, ''The Community Star'')]"

section \<open>scoringAlgorithms.ts: language diversity scoring\<close>

text \<open>\<^verbatim>\<open>SCORING_CONFIG.language\<close> (lines 2-7).\<close>

record LanguageConfig =
  baseWeight :: real
  recentActivityBonus :: real
  diversityThreshold :: nat
  diversityBonus :: real

definition SCORING_CONFIG_language :: LanguageConfig where
  "SCORING_CONFIG_language =
     \<lparr>baseWeight = 1, recentActivityBonus = 1, diversityThreshold = 3, diversityBonus = 0.5\<rparr>"

text \<open>A JavaScript \<^verbatim>\<open>Map\<close> keeps its keys in insertion order: an association list with
  distinct keys, a new key appended at the end, an existing entry changed in place.\<close>

type_synonym langMap = "(string \<times> LanguageScore) list"

fun mutateEntry :: "string \<Rightarrow> (LanguageScore \<Rightarrow> LanguageScore) \<Rightarrow> langMap \<Rightarrow> langMap" where
  "mutateEntry lang f [] = []"
| "mutateEntry lang f ((k, score) # m) =
     (if k = lang then (k, f score) # m else (k, score) # mutateEntry lang f m)"

text \<open>Lines 66-73: the update of the entry found for the repository's language.\<close>

definition bump :: "LanguageConfig \<Rightarrow> Repo \<Rightarrow> LanguageScore \<Rightarrow> LanguageScore" where
  "bump config repo score =
     (let isActiveIn2025 = (year2025Start \<le> pushed_at repo)
      in score\<lparr>repoCount := repoCount score + 1,
               recentCount := (if isActiveIn2025 then recentCount score + 1
                               else recentCount score),
               weight := weight score + (baseWeight config
                           + (if isActiveIn2025 then recentActivityBonus config else 0))\<rparr>)"

text \<open>The body of the first \<^verbatim>\<open>forEach\<close> (lines 48-74).\<close>

definition languageStep :: "LanguageConfig \<Rightarrow> langMap \<Rightarrow> Repo \<Rightarrow> langMap" where
  "languageStep config m repo =
     (if fork repo then m
      else case language repo of None \<Rightarrow> m
      | Some lang \<Rightarrow>
          if lang = [] then m
          else
            let m1 = (if map_of m lang = None
                      then m @ [(lang, \<lparr>LanguageScore.name = lang, weight = 0, repoCount = 0,
                                         recentCount = 0\<rparr>)]
                      else m)
            in mutateEntry lang (bump config repo) m1)"

text \<open>The repository passes both guards of lines 49-51 and its language is \<open>lang\<close>.\<close>

definition counted :: "Repo \<Rightarrow> string \<Rightarrow> bool" where
  "counted repo lang = (\<not> fork repo \<and> language repo = Some lang \<and> lang \<noteq> [])"

definition accumulateLanguages :: "LanguageConfig \<Rightarrow> Repo list \<Rightarrow> langMap" where
  "accumulateLanguages config repos = foldl (languageStep config) [] repos"

text \<open>The body of the second \<^verbatim>\<open>forEach\<close> (lines 76-81).\<close>

definition diversityStep :: "LanguageConfig \<Rightarrow> LanguageScore \<Rightarrow> LanguageScore" where
  "diversityStep config score =
     (if diversityThreshold config \<le> repoCount score
      then (let extraRepos = repoCount score - diversityThreshold config
            in score\<lparr>weight := weight score + real extraRepos * diversityBonus config\<rparr>)
      else score)"

definition calculateLanguageScores :: "LanguageConfig \<Rightarrow> Repo list \<Rightarrow> langMap" where
  "calculateLanguageScores config repos =
     map (\<lambda>(lang, score). (lang, diversityStep config score)) (accumulateLanguages config repos)"

text \<open>Lines 86-90; \<^verbatim>\<open>Array.prototype.sort\<close> is stable.\<close>

definition getTopLanguages :: "langMap \<Rightarrow> nat \<Rightarrow> LanguageScore list" where
  "getTopLanguages m topN = take topN (sort_key (\<lambda>score. - weight score) (map snd m))"

text \<open>The repositories that count for a language, and those of them pushed in 2025 or
  later.\<close>

definition reposOfLanguage :: "string \<Rightarrow> Repo list \<Rightarrow> Repo list" where
  "reposOfLanguage lang repos = filter (\<lambda>repo. \<not> fork repo \<and> language repo = Some lang) repos"

definition recentOfLanguage :: "string \<Rightarrow> Repo list \<Rightarrow> Repo list" where
  "recentOfLanguage lang repos =
     filter (\<lambda>repo. year2025Start \<le> pushed_at repo) (reposOfLanguage lang repos)"

section \<open>githubService.ts: contribution aggregation in fetchUserStory\<close>

text \<open>One element of \<^verbatim>\<open>contribData.contributions\<close>: the date as a timestamp, and the count,
  which may be absent (\<^verbatim>\<open>day.count || 0\<close>).\<close>

record Contribution =
  date :: int
  count :: "int option"

definition countOf :: "Contribution \<Rightarrow> int" where
  "countOf day = (case count day of None \<Rightarrow> 0 | Some c \<Rightarrow> c)"

text \<open>\<^verbatim>\<open>Date.prototype.getDay\<close> (0 is Sunday) for a time zone that is \<open>tz\<close> milliseconds
  ahead of UTC; 1 January 1970 was a Thursday.\<close>

definition getDay :: "int \<Rightarrow> int \<Rightarrow> nat" where
  "getDay tz t = nat (((t + tz) div 86400000 + 4) mod 7)"

record Aggregate =
  totalCommits :: int
  currentStreak :: nat
  maxStreak :: nat
  weekdayStats :: "int list"

text \<open>Lines 174-179: the streak counters.\<close>

definition streakStep :: "nat \<times> nat \<Rightarrow> int \<Rightarrow> nat \<times> nat" where
  "streakStep st c =
     (case st of (cur, mx) \<Rightarrow>
        if 0 < c then (cur + 1, if mx < cur + 1 then cur + 1 else mx)
        else (0, mx))"

text \<open>The body of the loop of lines 162-180 (the velocity series, a list of formatted
  labels, is left out).\<close>

definition dayStep :: "int \<Rightarrow> Aggregate \<Rightarrow> Contribution \<Rightarrow> Aggregate" where
  "dayStep tz a day =
     (let c = countOf day;
          st = streakStep (currentStreak a, maxStreak a) c
      in \<lparr>totalCommits = totalCommits a + c,
          currentStreak = fst st,
          maxStreak = snd st,
          weekdayStats =
            (if 0 < c
             then (weekdayStats a)[getDay tz (date day) :=
                    weekdayStats a ! getDay tz (date day) + c]
             else weekdayStats a)\<rparr>)"

text \<open>Lines 153-180: the contributions are sorted by date (a stable sort), then folded.\<close>

definition aggregateContributions :: "int \<Rightarrow> Contribution list \<Rightarrow> Aggregate" where
  "aggregateContributions tz yearData =
     foldl (dayStep tz)
       \<lparr>totalCommits = 0, currentStreak = 0, maxStreak = 0, weekdayStats = [0, 0, 0, 0, 0, 0, 0]\<rparr>
       (sort_key date yearData)"

text \<open>A run of active days: \<open>n\<close> consecutive entries from position \<open>i\<close>, each with a
  count above zero.\<close>

definition activeRun :: "int list \<Rightarrow> nat \<Rightarrow> nat \<Rightarrow> bool" where
  "activeRun cs i n = (i + n \<le> length cs \<and> list_all (\<lambda>c. 0 < c) (take n (drop i cs)))"

subsection \<open>Busiest weekday (lines 182-184)\<close>

text \<open>\<^verbatim>\<open>Math.max(...xs)\<close>; \<open>None\<close> is \<^verbatim>\<open>-Infinity\<close>, the value for no argument.\<close>

fun Math_max :: "int list \<Rightarrow> int option" where
  "Math_max [] = None"
| "Math_max (x # xs) = (case Math_max xs of None \<Rightarrow> Some x | Some m \<Rightarrow> Some (max x m))"

text \<open>\<^verbatim>\<open>Array.prototype.indexOf\<close>: the first index holding the value, or -1.\<close>

fun indexOf :: "int list \<Rightarrow> int \<Rightarrow> int" where
  "indexOf [] v = - 1"
| "indexOf (x # xs) v =
     (if x = v then 0 else (let i = indexOf xs v in if i < 0 then - 1 else i + 1))"

definition maxDayIndex :: "int list \<Rightarrow> int" where
  "maxDayIndex stats = (case Math_max stats of None \<Rightarrow> - 1 | Some m \<Rightarrow> indexOf stats m)"

definition days :: "string list" where
  "days = [''Sundays'', ''Mondays'', ''Tuesdays'', ''Wednesdays'', ''Thursdays'', ''Fridays'',
           ''Saturdays'']"

text \<open>\<^verbatim>\<open>days[maxDayIndex]\<close>; \<open>None\<close> is \<^verbatim>\<open>undefined\<close>.\<close>

definition busiestDay :: "int list \<Rightarrow> string option" where
  "busiestDay stats =
     (let i = maxDayIndex stats in if i < 0 then None else at_index days (nat i))"

section \<open>githubService.ts: top repository selection in fetchUserStory\<close>

text \<open>The part of the \<^verbatim>\<open>forEach\<close> body of lines 272-285 that tracks the best repository
  and the star total; the scorer is a parameter.\<close>

record Selection =
  bestRepo :: "Repo option"
  bestScore :: real
  starTotal :: nat

definition selectStep :: "(Repo \<Rightarrow> real) \<Rightarrow> Selection \<Rightarrow> Repo \<Rightarrow> Selection" where
  "selectStep score sel repo =
     (let repoScore = score repo
      in if bestScore sel < repoScore
         then \<lparr>bestRepo = Some repo, bestScore = repoScore,
               starTotal = starTotal sel + stargazers_count repo\<rparr>
         else sel\<lparr>starTotal := starTotal sel + stargazers_count repo\<rparr>)"

text \<open>Lines 214-216 initialise \<^verbatim>\<open>bestRepo = null\<close>, \<^verbatim>\<open>bestScore = -1\<close>, \<^verbatim>\<open>totalStars = 0\<close>.\<close>

definition selectWith :: "(Repo \<Rightarrow> real) \<Rightarrow> Repo list \<Rightarrow> Selection" where
  "selectWith score repos =
     foldl (selectStep score) \<lparr>bestRepo = None, bestScore = - 1, starTotal = 0\<rparr> repos"

definition selectBest :: "int \<Rightarrow> Repo list \<Rightarrow> Selection" where
  "selectBest now repos = selectWith (calculateRepoScore_gs now) repos"

text \<open>Lines 302-316: \<^verbatim>\<open>x || dflt\<close> on an optional string, and the report's top repository.\<close>

definition orElse :: "'a list option \<Rightarrow> 'a list \<Rightarrow> 'a list" where
  "orElse s dflt = (case s of None \<Rightarrow> dflt | Some t \<Rightarrow> if t = [] then dflt else t)"

definition noPublicRepos :: Repository where
  "noPublicRepos =
     \<lparr>Repository.name = ''No Public Repos'', description = utf16 ''Start coding to write history.'',
      stars = 0, language = ''N/A'', topics = [], url = ''''\<rparr>"

definition topRepo :: "Repo option \<Rightarrow> Repository" where
  "topRepo best =
     (case best of
        Some b \<Rightarrow>
          \<lparr>Repository.name = Repo.name b,
           description = orElse (Repo.description b) (utf16 ''No description provided.''),
           stars = stargazers_count b,
           language = orElse (Repo.language b) ''Unknown'',
           topics = Repo.topics b,
           url = html_url b\<rparr>
      | None \<Rightarrow> noPublicRepos)"

section \<open>Derived notions and proof invariants\<close>

text \<open>The counts in date order, and the report's \<^verbatim>\<open>longestStreak\<close> field
  (githubService.ts, line 341).\<close>

definition orderedCounts :: "Contribution list \<Rightarrow> int list" where
  "orderedCounts yearData = map countOf (sort_key date yearData)"

definition longestStreak :: "int \<Rightarrow> Contribution list \<Rightarrow> nat" where
  "longestStreak tz yearData = maxStreak (aggregateContributions tz yearData)"

text \<open>Invariant of the streak counters after the days \<open>pre\<close>: \<open>cur\<close> is the length of the
  longest active run that ends at the last day, \<open>mx\<close> the length of the longest active run.\<close>

definition streakInv :: "int list \<Rightarrow> nat \<times> nat \<Rightarrow> bool" where
  "streakInv pre st =
     (case st of (cur, mx) \<Rightarrow>
        cur \<le> length pre \<and> activeRun pre (length pre - cur) cur
        \<and> (\<forall>i n. activeRun pre i n \<and> i + n = length pre \<longrightarrow> n \<le> cur)
        \<and> (\<exists>i. activeRun pre i mx)
        \<and> (\<forall>i n. activeRun pre i n \<longrightarrow> n \<le> mx))"

text \<open>Invariant of the selection after the repositories \<open>pre\<close>: either nothing is selected
  and no score exceeds -1, or the selected repository is the first one with the greatest
  score, and that score exceeds -1.\<close>

definition selInv :: "(Repo \<Rightarrow> real) \<Rightarrow> Repo list \<Rightarrow> Selection \<Rightarrow> bool" where
  "selInv score pre sel =
     ((bestRepo sel = None \<and> bestScore sel = - 1 \<and> (\<forall>j<length pre. score (pre ! j) \<le> - 1))
      \<or> (\<exists>i<length pre. bestRepo sel = Some (pre ! i) \<and> bestScore sel = score (pre ! i)
            \<and> - 1 < score (pre ! i)
            \<and> (\<forall>j<length pre. score (pre ! j) \<le> score (pre ! i))
            \<and> (\<forall>j<i. score (pre ! j) < score (pre ! i))))"

text \<open>The Taylor polynomial of the exponential function in Horner form, with the value \<open>r\<close>
  in the place of the innermost remainder:
  \<open>tayr n 0 x r = (\<Sum>m<n. x ^ m / m!) + r * x ^ n / n!\<close>.\<close>

fun tayr :: "nat \<Rightarrow> nat \<Rightarrow> real \<Rightarrow> real \<Rightarrow> real" where
  "tayr 0 k x r = r"
| "tayr (Suc n) k x r = 1 + x / real (Suc k) * tayr n (Suc k) x r"

section \<open>Example inputs\<close>

definition noCommunity :: CommunityStats where
  "noCommunity = \<lparr>followers = 0, following = 0, publicRepos = 0, totalStars = 0\<rparr>"

text \<open>An archived fork without stars, forks, watchers, size, open issues, description,
  topics or language, created and last pushed on 1 January 2020.\<close>

definition deadFork :: Repo where
  "deadFork =
     \<lparr>Repo.name = ''old-fork'', description = None, stargazers_count = 0, forks_count = 0,
      watchers_count = 0, size_kb = 0, open_issues_count = 0, language = None, topics = [],
      fork = True, archived = True, created_at = 1577836800000, pushed_at = 1577836800000,
      html_url = ''https://github.com/octocat/old-fork''\<rparr>"

text \<open>A plain repository pushed at midnight UTC of 1 January 2025.\<close>

definition freshRepo :: Repo where
  "freshRepo =
     \<lparr>Repo.name = ''fresh'', description = None, stargazers_count = 0, forks_count = 0,
      watchers_count = 0, size_kb = 0, open_issues_count = 0, language = None, topics = [],
      fork = False, archived = False, created_at = 1577836800000, pushed_at = 1735689600000,
      html_url = ''https://github.com/octocat/fresh''\<rparr>"

text \<open>The repository \<open>freshRepo\<close> with one open issue.\<close>

definition oneIssue :: Repo where
  "oneIssue = freshRepo\<lparr>open_issues_count := 1\<rparr>"

text \<open>A description of ten digits followed by a no-break space.\<close>

definition paddedDescription :: jsString where
  "paddedDescription = utf16 ''0123456789'' @ [0x00A0]"

text \<open>Eight days given out of date order; in date order the counts are
  1, 0, 1, 1, 0, 1, 1, 1.\<close>

definition onDay :: "int \<Rightarrow> int \<Rightarrow> Contribution" where
  "onDay k c = \<lparr>date = 1735689600000 + k * 86400000, count = Some c\<rparr>"

definition eightDays :: "Contribution list" where
  "eightDays = [onDay 7 1, onDay 1 0, onDay 2 1, onDay 3 1, onDay 4 0, onDay 5 1, onDay 6 1,
                onDay 0 1]"

section \<open>Bounds on logarithms\<close>

lemma tayr_sum:
  "tayr n k x r = (\<Sum>m<n. x ^ m * fact k / fact (k + m)) + r * x ^ n * fact k / fact (k + n)"
proof (induction n arbitrary: k)
  case 0
  show ?case by simp
next
  case (Suc n)
  have h: "x / real (Suc k) * (y * fact (Suc k) / z) = x * y * fact k / z" for y z :: real
    by simp
  have "tayr (Suc n) k x r = 1 + x / real (Suc k) * tayr n (Suc k) x r" by simp
  also have "\<dots> = 1 + x / real (Suc k)
      * ((\<Sum>m<n. x ^ m * fact (Suc k) / fact (Suc k + m))
         + r * x ^ n * fact (Suc k) / fact (Suc k + n))"
    by (simp only: Suc.IH)
  also have "\<dots> = 1 + ((\<Sum>m<n. x / real (Suc k) * (x ^ m * fact (Suc k) / fact (Suc k + m)))
         + x / real (Suc k) * (r * x ^ n * fact (Suc k) / fact (Suc k + n)))"
    by (simp only: distrib_left sum_distrib_left)
  also have "\<dots> = 1 + ((\<Sum>m<n. x ^ Suc m * fact k / fact (k + Suc m))
         + r * x ^ Suc n * fact k / fact (k + Suc n))"
    by (simp only: h) (simp add: mult_ac)
  also have "\<dots> = (\<Sum>m<Suc n. x ^ m * fact k / fact (k + m))
         + r * x ^ Suc n * fact k / fact (k + Suc n)"
    by (subst sum.lessThan_Suc_shift) simp
  finally show ?case .
qed

lemma exp_le_tayr:
  assumes "0 \<le> x" "x \<le> 1"
  shows "exp x \<le> tayr n 0 x 3"
proof -
  from Maclaurin_exp_le [of x n] obtain t where
    t: "\<bar>t\<bar> \<le> \<bar>x\<bar>" "exp x = (\<Sum>m<n. x ^ m / fact m) + exp t / fact n * x ^ n" by blast
  have "t \<le> 1" using t(1) assms by linarith
  then have "exp t \<le> exp 1" by simp
  also have "\<dots> \<le> 3" by (rule exp_le)
  finally have "exp t \<le> 3" .
  then have "exp t / fact n * x ^ n \<le> 3 / fact n * x ^ n"
    using assms by (intro mult_right_mono divide_right_mono) simp_all
  then show ?thesis using t(2) by (simp add: tayr_sum)
qed

lemma tayr_le_exp:
  assumes "0 \<le> x"
  shows "tayr n 0 x 0 \<le> exp x"
proof -
  from Maclaurin_exp_le [of x n] obtain t where
    t: "exp x = (\<Sum>m<n. x ^ m / fact m) + exp t / fact n * x ^ n" by blast
  have "0 \<le> exp t / fact n * x ^ n" using assms by simp
  then show ?thesis using t by (simp add: tayr_sum)
qed

lemma tayr_step_upper:
  assumes "n' = Suc n" "k' = Suc k" "tayr n k' x r \<le> U" "0 \<le> x" "1 + x / real k' * U \<le> U'"
  shows "tayr n' k x r \<le> U'"
proof -
  have "x / real k' * tayr n k' x r \<le> x / real k' * U"
    using assms(3,4) by (intro mult_left_mono) simp_all
  then show ?thesis using assms(1,2,5) by simp
qed

lemma tayr_step_lower:
  assumes "n' = Suc n" "k' = Suc k" "L \<le> tayr n k' x r" "0 \<le> x" "L' \<le> 1 + x / real k' * L"
  shows "L' \<le> tayr n' k x r"
proof -
  have "x / real k' * L \<le> x / real k' * tayr n k' x r"
    using assms(3,4) by (intro mult_left_mono) simp_all
  then show ?thesis using assms(1,2,5) by simp
qed

lemma ln_2_lower: "69314718055994530941 / 10 ^ 20 < ln (2::real)"
proof -
  let ?x = "(69314718055994530941 / 10 ^ 20) :: real"
  have x: "0 \<le> ?x" by simp
  have s24: "tayr 0 24 ?x 3 \<le> 3" by simp
  have s23: "tayr 1 23 ?x 3 \<le> (108664339756999316367625000 / 10 ^ 26)"
    by (rule tayr_step_upper [OF _ _ s24 x]) simp_all
  have s22: "tayr 2 22 ?x 3 \<le> (103274799162172697771704933 / 10 ^ 26)"
    by (rule tayr_step_upper [OF _ _ s23 x]) simp_all
  have s21: "tayr 3 21 ?x 3 \<le> (103253847084643391250207635 / 10 ^ 26)"
    by (rule tayr_step_upper [OF _ _ s22 x]) simp_all
  have s20: "tayr 4 20 ?x 3 \<le> (103408100618508966443061980 / 10 ^ 26)"
    by (rule tayr_step_upper [OF _ _ s21 x]) simp_all
  have s19: "tayr 5 19 ?x 3 \<le> (103583851669538931339552723 / 10 ^ 26)"
    by (rule tayr_step_upper [OF _ _ s20 x]) simp_all
  have s18: "tayr 6 18 ?x 3 \<le> (103778887091383183896379164 / 10 ^ 26)"
    by (rule tayr_step_upper [OF _ _ s19 x]) simp_all
  have s17: "tayr 7 17 ?x 3 \<le> (103996335721613397625544814 / 10 ^ 26)"
    by (rule tayr_step_upper [OF _ _ s18 x]) simp_all
  have s16: "tayr 8 16 ?x 3 \<le> (104240280405529520705735891 / 10 ^ 26)"
    by (rule tayr_step_upper [OF _ _ s17 x]) simp_all
  have s15: "tayr 9 15 ?x 3 \<le> (104515866028991931234286990 / 10 ^ 26)"
    by (rule tayr_step_upper [OF _ _ s16 x]) simp_all
  have s14: "tayr 10 14 ?x 3 \<le> (104829658524118448287977197 / 10 ^ 26)"
    by (rule tayr_step_upper [OF _ _ s15 x]) simp_all
  have s13: "tayr 11 13 ?x 3 \<le> (105190170160361038571029956 / 10 ^ 26)"
    by (rule tayr_step_upper [OF _ _ s14 x]) simp_all
  have s12: "tayr 12 12 ?x 3 \<le> (105608636143790395695747274 / 10 ^ 26)"
    by (rule tayr_step_upper [OF _ _ s13 x]) simp_all
  have s11: "tayr 13 11 ?x 3 \<le> (106100194032154120644124516 / 10 ^ 26)"
    by (rule tayr_step_upper [OF _ _ s12 x]) simp_all
  have s10: "tayr 14 10 ?x 3 \<le> (106685731850022796729604570 / 10 ^ 26)"
    by (rule tayr_step_upper [OF _ _ s11 x]) simp_all
  have s9: "tayr 15 9 ?x 3 \<le> (107394891423781765961923194 / 10 ^ 26)"
    by (rule tayr_step_upper [OF _ _ s10 x]) simp_all
  have s8: "tayr 16 8 ?x 3 \<le> (108271162910770642413252210 / 10 ^ 26)"
    by (rule tayr_step_upper [OF _ _ s9 x]) simp_all
  have s7: "tayr 17 7 ?x 3 \<le> (109380981413443399028973269 / 10 ^ 26)"
    by (rule tayr_step_upper [OF _ _ s8 x]) simp_all
  have s6: "tayr 18 6 ?x 3 \<le> (110831016981944010515381084 / 10 ^ 26)"
    by (rule tayr_step_upper [OF _ _ s7 x]) simp_all
  have s5: "tayr 19 5 ?x 3 \<le> (112803701156604318317134392 / 10 ^ 26)"
    by (rule tayr_step_upper [OF _ _ s6 x]) simp_all
  have s4: "tayr 20 4 ?x 3 \<le> (115637913482685384992814406 / 10 ^ 26)"
    by (rule tayr_step_upper [OF _ _ s5 x]) simp_all
  have s3: "tayr 21 3 ?x 3 \<le> (120038523424089565169893177 / 10 ^ 26)"
    by (rule tayr_step_upper [OF _ _ s4 x]) simp_all
  have s2: "tayr 22 2 ?x 3 \<le> (127734788023328878101586347 / 10 ^ 26)"
    by (rule tayr_step_upper [OF _ _ s3 x]) simp_all
  have s1: "tayr 23 1 ?x 3 \<le> (144269504088896340735410991 / 10 ^ 26)"
    by (rule tayr_step_upper [OF _ _ s2 x]) simp_all
  have s0: "tayr 24 0 ?x 3 \<le> (199999999999999999998553577 / 10 ^ 26)"
    by (rule tayr_step_upper [OF _ _ s1 x]) simp_all
  have "exp ?x \<le> tayr 24 0 ?x 3" by (rule exp_le_tayr) simp_all
  also note s0
  also have "(199999999999999999998553577 / 10 ^ 26) < (2 :: real)" by simp
  finally have "exp ?x < exp (ln (2))" by simp
  then show ?thesis by (simp only: exp_less_cancel_iff)
qed

lemma ln_2_upper: "ln (2::real) < 69314718055994530942 / 10 ^ 20"
proof -
  let ?x = "(69314718055994530942 / 10 ^ 20) :: real"
  have x: "0 \<le> ?x" by simp
  have s24: "0 \<le> tayr 0 24 ?x 0" by simp
  have s23: "(100000000000000000000000000 / 10 ^ 26) \<le> tayr 1 23 ?x 0"
    by (rule tayr_step_lower [OF _ _ s24 x]) simp_all
  have s22: "(103013683393738892649652173 / 10 ^ 26) \<le> tayr 2 22 ?x 0"
    by (rule tayr_step_lower [OF _ _ s23 x]) simp_all
  have s21: "(103245620191066589632674098 / 10 ^ 26) \<le> tayr 3 21 ?x 0"
    by (rule tayr_step_lower [OF _ _ s22 x]) simp_all
  have s20: "(103407829073361941359059612 / 10 ^ 26) \<le> tayr 4 20 ?x 0"
    by (rule tayr_step_lower [OF _ _ s21 x]) simp_all
  have s19: "(103583842258501278580964583 / 10 ^ 26) \<le> tayr 5 19 ?x 0"
    by (rule tayr_step_lower [OF _ _ s20 x]) simp_all
  have s18: "(103778886748055067309428366 / 10 ^ 26) \<le> tayr 6 18 ?x 0"
    by (rule tayr_step_lower [OF _ _ s19 x]) simp_all
  have s17: "(103996335708392457846757960 / 10 ^ 26) \<le> tayr 7 17 ?x 0"
    by (rule tayr_step_lower [OF _ _ s18 x]) simp_all
  have s16: "(104240280404990458521560656 / 10 ^ 26) \<le> tayr 8 16 ?x 0"
    by (rule tayr_step_lower [OF _ _ s17 x]) simp_all
  have s15: "(104515866028968578144782917 / 10 ^ 26) \<le> tayr 9 15 ?x 0"
    by (rule tayr_step_lower [OF _ _ s16 x]) simp_all
  have s14: "(104829658524117369146170399 / 10 ^ 26) \<le> tayr 10 14 ?x 0"
    by (rule tayr_step_lower [OF _ _ s15 x]) simp_all
  have s13: "(105190170160360985142240490 / 10 ^ 26) \<le> tayr 11 13 ?x 0"
    by (rule tayr_step_lower [OF _ _ s14 x]) simp_all
  have s12: "(105608636143790392847057821 / 10 ^ 26) \<le> tayr 12 12 ?x 0"
    by (rule tayr_step_lower [OF _ _ s13 x]) simp_all
  have s11: "(106100194032154120479665767 / 10 ^ 26) \<le> tayr 13 11 ?x 0"
    by (rule tayr_step_lower [OF _ _ s12 x]) simp_all
  have s10: "(106685731850022796719337922 / 10 ^ 26) \<le> tayr 14 10 ?x 0"
    by (rule tayr_step_lower [OF _ _ s11 x]) simp_all
  have s9: "(107394891423781765961318249 / 10 ^ 26) \<le> tayr 15 9 ?x 0"
    by (rule tayr_step_lower [OF _ _ s10 x]) simp_all
  have s8: "(108271162910770642413324946 / 10 ^ 26) \<le> tayr 16 8 ?x 0"
    by (rule tayr_step_lower [OF _ _ s9 x]) simp_all
  have s7: "(109380981413443399029114909 / 10 ^ 26) \<le> tayr 17 7 ?x 0"
    by (rule tayr_step_lower [OF _ _ s8 x]) simp_all
  have s6: "(110831016981944010515551367 / 10 ^ 26) \<le> tayr 18 6 ?x 0"
    by (rule tayr_step_lower [OF _ _ s7 x]) simp_all
  have s5: "(112803701156604318317338781 / 10 ^ 26) \<le> tayr 19 5 ?x 0"
    by (rule tayr_step_lower [OF _ _ s6 x]) simp_all
  have s4: "(115637913482685384993068347 / 10 ^ 26) \<le> tayr 20 4 ?x 0"
    by (rule tayr_step_lower [OF _ _ s5 x]) simp_all
  have s3: "(120038523424089565170226275 / 10 ^ 26) \<le> tayr 21 3 ?x 0"
    by (rule tayr_step_lower [OF _ _ s4 x]) simp_all
  have s2: "(127734788023328878102063437 / 10 ^ 26) \<le> tayr 22 2 ?x 0"
    by (rule tayr_step_lower [OF _ _ s3 x]) simp_all
  have s1: "(144269504088896340736215011 / 10 ^ 26) \<le> tayr 23 1 ?x 0"
    by (rule tayr_step_lower [OF _ _ s2 x]) simp_all
  have s0: "(200000000000000000000553575 / 10 ^ 26) \<le> tayr 24 0 ?x 0"
    by (rule tayr_step_lower [OF _ _ s1 x]) simp_all
  have "(2 :: real) < (200000000000000000000553575 / 10 ^ 26)" by simp
  also note s0
  also have "tayr 24 0 ?x 0 \<le> exp ?x" by (rule tayr_le_exp) simp
  finally have "exp (ln (2)) < exp ?x" by simp
  then show ?thesis by (simp only: exp_less_cancel_iff)
qed

lemma ln_5_4_lower: "22314355131420975576 / 10 ^ 20 < ln (5 / 4 :: real)"
proof -
  let ?x = "(22314355131420975576 / 10 ^ 20) :: real"
  have x: "0 \<le> ?x" by simp
  have s18: "tayr 0 18 ?x 3 \<le> 3" by simp
  have s17: "tayr 1 17 ?x 3 \<le> (103719059188570162596000000 / 10 ^ 26)"
    by (rule tayr_step_upper [OF _ _ s18 x]) simp_all
  have s16: "tayr 2 16 ?x 3 \<le> (101361425835665074408800967 / 10 ^ 26)"
    by (rule tayr_step_upper [OF _ _ s17 x]) simp_all
  have s15: "tayr 3 15 ?x 3 \<le> (101413634282952637250348047 / 10 ^ 26)"
    by (rule tayr_step_upper [OF _ _ s16 x]) simp_all
  have s14: "tayr 4 14 ?x 3 \<le> (101508653233705236233309204 / 10 ^ 26)"
    by (rule tayr_step_upper [OF _ _ s15 x]) simp_all
  have s13: "tayr 5 13 ?x 3 \<le> (101617928669406544888605967 / 10 ^ 26)"
    by (rule tayr_step_upper [OF _ _ s14 x]) simp_all
  have s12: "tayr 6 12 ?x 3 \<le> (101744260421575802002856598 / 10 ^ 26)"
    by (rule tayr_step_upper [OF _ _ s13 x]) simp_all
  have s11: "tayr 7 11 ?x 3 \<le> (101891964633025685057636292 / 10 ^ 26)"
    by (rule tayr_step_upper [OF _ _ s12 x]) simp_all
  have s10: "tayr 8 10 ?x 3 \<le> (102066957712599564778110742 / 10 ^ 26)"
    by (rule tayr_step_upper [OF _ _ s11 x]) simp_all
  have s9: "tayr 9 9 ?x 3 \<le> (102277558341582673817968432 / 10 ^ 26)"
    by (rule tayr_step_upper [OF _ _ s10 x]) simp_all
  have s8: "tayr 10 8 ?x 3 \<le> (102535841954231892824672672 / 10 ^ 26)"
    by (rule tayr_step_upper [OF _ _ s9 x]) simp_all
  have s7: "tayr 11 7 ?x 3 \<le> (102860026488832480737429256 / 10 ^ 26)"
    by (rule tayr_step_upper [OF _ _ s8 x]) simp_all
  have s6: "tayr 12 6 ?x 3 \<le> (103278935942713109342344607 / 10 ^ 26)"
    by (rule tayr_step_upper [OF _ _ s7 x]) simp_all
  have s5: "tayr 13 5 ?x 3 \<le> (103841004757034964171769104 / 10 ^ 26)"
    by (rule tayr_step_upper [OF _ _ s6 x]) simp_all
  have s4: "tayr 14 4 ?x 3 \<le> (104634290114704106175805458 / 10 ^ 26)"
    by (rule tayr_step_upper [OF _ _ s5 x]) simp_all
  have s3: "tayr 15 3 ?x 3 \<le> (105837116771359096576853105 / 10 ^ 26)"
    by (rule tayr_step_upper [OF _ _ s4 x]) simp_all
  have s2: "tayr 16 2 ?x 3 \<le> (107872290032405926172460763 / 10 ^ 26)"
    by (rule tayr_step_upper [OF _ _ s3 x]) simp_all
  have s1: "tayr 17 1 ?x 3 \<le> (112035502943113744671960441 / 10 ^ 26)"
    by (rule tayr_step_upper [OF _ _ s2 x]) simp_all
  have s0: "tayr 18 0 ?x 3 \<le> (124999999999999999999213114 / 10 ^ 26)"
    by (rule tayr_step_upper [OF _ _ s1 x]) simp_all
  have "exp ?x \<le> tayr 18 0 ?x 3" by (rule exp_le_tayr) simp_all
  also note s0
  also have "(124999999999999999999213114 / 10 ^ 26) < (5 / 4 :: real)" by simp
  finally have "exp ?x < exp (ln (5 / 4))" by simp
  then show ?thesis by (simp only: exp_less_cancel_iff)
qed

lemma ln_5_4_upper: "ln (5 / 4 :: real) < 22314355131420975577 / 10 ^ 20"
proof -
  let ?x = "(22314355131420975577 / 10 ^ 20) :: real"
  have x: "0 \<le> ?x" by simp
  have s18: "0 \<le> tayr 0 18 ?x 0" by simp
  have s17: "(100000000000000000000000000 / 10 ^ 26) \<le> tayr 1 17 ?x 0"
    by (rule tayr_step_lower [OF _ _ s18 x]) simp_all
  have s16: "(101312609125377704445705882 / 10 ^ 26) \<le> tayr 2 16 ?x 0"
    by (rule tayr_step_lower [OF _ _ s17 x]) simp_all
  have s15: "(101412953462071574709746856 / 10 ^ 26) \<le> tayr 3 15 ?x 0"
    by (rule tayr_step_lower [OF _ _ s16 x]) simp_all
  have s14: "(101508643105652622289075106 / 10 ^ 26) \<le> tayr 4 14 ?x 0"
    by (rule tayr_step_lower [OF _ _ s15 x]) simp_all
  have s13: "(101617928507977285733486940 / 10 ^ 26) \<le> tayr 5 13 ?x 0"
    by (rule tayr_step_lower [OF _ _ s14 x]) simp_all
  have s12: "(101744260418804886758788982 / 10 ^ 26) \<le> tayr 6 12 ?x 0"
    by (rule tayr_step_lower [OF _ _ s13 x]) simp_all
  have s11: "(101891964632974159068725084 / 10 ^ 26) \<le> tayr 7 11 ?x 0"
    by (rule tayr_step_lower [OF _ _ s12 x]) simp_all
  have s10: "(102066957712598519533462405 / 10 ^ 26) \<le> tayr 8 10 ?x 0"
    by (rule tayr_step_lower [OF _ _ s11 x]) simp_all
  have s9: "(102277558341582650494110216 / 10 ^ 26) \<le> tayr 9 9 ?x 0"
    by (rule tayr_step_lower [OF _ _ s10 x]) simp_all
  have s8: "(102535841954231892246500918 / 10 ^ 26) \<le> tayr 10 8 ?x 0"
    by (rule tayr_step_lower [OF _ _ s9 x]) simp_all
  have s7: "(102860026488832480721430513 / 10 ^ 26) \<le> tayr 11 7 ?x 0"
    by (rule tayr_step_lower [OF _ _ s8 x]) simp_all
  have s6: "(103278935942713109341981547 / 10 ^ 26) \<le> tayr 12 6 ?x 0"
    by (rule tayr_step_lower [OF _ _ s7 x]) simp_all
  have s5: "(103841004757034964171927732 / 10 ^ 26) \<le> tayr 13 5 ?x 0"
    by (rule tayr_step_lower [OF _ _ s6 x]) simp_all
  have s4: "(104634290114704106176020218 / 10 ^ 26) \<le> tayr 14 4 ?x 0"
    by (rule tayr_step_lower [OF _ _ s5 x]) simp_all
  have s3: "(105837116771359096577126671 / 10 ^ 26) \<le> tayr 15 3 ?x 0"
    by (rule tayr_step_lower [OF _ _ s4 x]) simp_all
  have s2: "(107872290032405926172833901 / 10 ^ 26) \<le> tayr 16 2 ?x 0"
    by (rule tayr_step_lower [OF _ _ s3 x]) simp_all
  have s1: "(112035502943113744672541433 / 10 ^ 26) \<le> tayr 17 1 ?x 0"
    by (rule tayr_step_lower [OF _ _ s2 x]) simp_all
  have s0: "(125000000000000000000463113 / 10 ^ 26) \<le> tayr 18 0 ?x 0"
    by (rule tayr_step_lower [OF _ _ s1 x]) simp_all
  have "(5 / 4 :: real) < (125000000000000000000463113 / 10 ^ 26)" by simp
  also note s0
  also have "tayr 18 0 ?x 0 \<le> exp ?x" by (rule tayr_le_exp) simp
  finally have "exp (ln (5 / 4)) < exp ?x" by simp
  then show ?thesis by (simp only: exp_less_cancel_iff)
qed

lemma ln_10_eq: "ln (10::real) = 3 * ln 2 + ln (5 / 4)"
proof -
  have "ln (10::real) = ln (2 ^ 3 * (5 / 4))" by simp
  also have "\<dots> = ln (2 ^ 3) + ln (5 / 4 :: real)" by (rule ln_mult_pos) simp_all
  also have "ln ((2::real) ^ 3) = 3 * ln 2" by (subst ln_realpow) simp
  finally show ?thesis .
qed

lemma log10_2_bounds:
  "(5422874305198591 - 1 / 2) / 2 ^ 54 < log 10 (2::real)"
  "log 10 (2::real) < (5422874305198591 + 1 / 2) / 2 ^ 54"
proof -
  let ?q = "(5422874305198591 - 1 / 2) / 2 ^ 54 :: real"
  let ?p = "(5422874305198591 + 1 / 2) / 2 ^ 54 :: real"
  note a = ln_2_lower and b = ln_2_upper and c = ln_5_4_lower and d = ln_5_4_upper
  have pos: "0 < ln (10::real)" by simp
  have "?q * ln 10 = 3 * ?q * ln 2 + ?q * ln (5 / 4)" by (simp add: ln_10_eq algebra_simps)
  also have "\<dots> < 3 * ?q * ln 2 + ?q * (22314355131420975577 / 10 ^ 20)"
    using d by simp
  also have "\<dots> \<le> 3 * ?q * ln 2 + (1 - 3 * ?q) * (69314718055994530941 / 10 ^ 20)"
    by simp
  also have "\<dots> < 3 * ?q * ln 2 + (1 - 3 * ?q) * ln 2"
    using a by simp
  also have "\<dots> = ln 2" by (simp add: algebra_simps)
  finally have "?q * ln 10 < ln 2" .
  then show "?q < log 10 (2::real)" using pos by (simp add: log_def pos_less_divide_eq)
  have "ln 2 = 3 * ?p * ln 2 + (1 - 3 * ?p) * ln 2" by (simp add: algebra_simps)
  also have "\<dots> < 3 * ?p * ln 2 + (1 - 3 * ?p) * (69314718055994530942 / 10 ^ 20)"
    using b by simp
  also have "\<dots> \<le> 3 * ?p * ln 2 + ?p * (22314355131420975576 / 10 ^ 20)"
    by simp
  also have "\<dots> < 3 * ?p * ln 2 + ?p * ln (5 / 4)"
    using c by simp
  also have "\<dots> = ?p * ln 10" by (simp add: ln_10_eq algebra_simps)
  finally have "ln 2 < ?p * ln 10" .
  then show "log 10 (2::real) < ?p" using pos by (simp add: log_def pos_divide_less_eq)
qed

section \<open>Double rounding: evaluation\<close>

lemma roundTiesToEven_of_int: "roundTiesToEven (of_int k) = k"
  by (simp add: roundTiesToEven_def)

lemma roundTiesToEven_near:
  assumes "of_int m - 1 / 2 < y" "y < of_int m + 1 / 2"
  shows "roundTiesToEven y = m"
proof (cases "of_int m \<le> y")
  case True
  then have "\<lfloor>y\<rfloor> = m" using assms by linarith
  then show ?thesis using assms by (simp add: roundTiesToEven_def)
next
  case False
  then have "\<lfloor>y\<rfloor> = m - 1" using assms by linarith
  then show ?thesis using assms False by (simp add: roundTiesToEven_def)
qed

lemma powr_powi: "(2::real) powr (of_int k) = 2 powi k"
  by (simp add: powr_real_of_int' power_int_def)

lemma binade_scaled:
  assumes "2 ^ 52 \<le> \<bar>y\<bar>" "\<bar>y\<bar> < 2 ^ 53"
  shows "binade (y * 2 powi e) = 52 + e"
proof -
  have p: "0 < (2::real) powi e" by simp
  have "(0::real) < 2 ^ 52" by simp
  then have "0 < \<bar>y\<bar>" using assms(1) by linarith
  then have pos: "0 < \<bar>y * 2 powi e\<bar>" using p by (simp add: abs_mult)
  have "(2::real) powi (52 + e) = 2 ^ 52 * 2 powi e" "(2::real) powi (52 + e + 1) = 2 ^ 53 * 2 powi e"
    by (simp_all add: power_int_add)
  then have "2 powr (of_int (52 + e)) \<le> \<bar>y * 2 powi e\<bar>
      \<and> \<bar>y * 2 powi e\<bar> < 2 powr (of_int (52 + e + 1))"
    using assms p unfolding powr_powi by (simp add: abs_mult)
  then show ?thesis unfolding binade_def
    using floor_log_eq_powr_iff [of "\<bar>y * 2 powi e\<bar>" 2 "52 + e"] pos by simp
qed

lemma double_scaled:
  assumes "2 ^ 52 \<le> \<bar>y\<bar>" "\<bar>y\<bar> < 2 ^ 53"
  shows "double (y * 2 powi e) = of_int (roundTiesToEven y) * 2 powi e"
proof -
  have "y \<noteq> 0" using assms(1) by auto
  then have "y * 2 powi e \<noteq> 0" by simp
  then show ?thesis by (simp add: double_def binade_scaled [OF assms])
qed

lemma double_0: "double 0 = 0"
  by (simp add: double_def)

lemma double_of_int:
  assumes "\<bar>k\<bar> < 2 ^ 53"
  shows "double (of_int k) = of_int k"
proof (cases "k = 0")
  case True
  then show ?thesis by (simp add: double_def)
next
  case False
  define b where "b = \<lfloor>log 2 \<bar>real_of_int k\<bar>\<rfloor>"
  have k1: "1 \<le> \<bar>real_of_int k\<bar>" using False by (simp flip: of_int_abs)
  have bb: "2 powr (of_int b) \<le> \<bar>real_of_int k\<bar>" "\<bar>real_of_int k\<bar> < 2 powr (of_int (b + 1))"
    using floor_log_eq_powr_iff [of "\<bar>real_of_int k\<bar>" 2 b] k1 by (simp_all add: b_def)
  have b0: "0 \<le> b" unfolding b_def using k1 by simp
  have "real_of_int \<bar>k\<bar> < real_of_int (2 ^ 53)" using assms by (simp only: of_int_less_iff)
  then have "\<bar>real_of_int k\<bar> < 2 ^ 53" by simp
  then have "(2::real) powi b < 2 powi 53" using bb(1) unfolding powr_powi by simp
  then have b52: "b \<le> 52"
    using power_int_increasing [of 53 b "2::real"] by (cases "b \<le> 52") auto
  define j where "j = nat (52 - b)"
  have jb: "int j + b = 52" using b52 by (simp add: j_def)
  let ?y = "real_of_int k * 2 ^ j"
  have pj: "(2::real) ^ j * 2 powi b = 2 ^ 52"
    using power_int_add [of "2::real" "int j" b] jb by simp
  have pj1: "(2::real) ^ j * 2 powi (b + 1) = 2 ^ 53"
    using power_int_add [of "2::real" "int j" "b + 1"] jb by (simp add: add.assoc [symmetric])
  have lo: "2 ^ 52 \<le> \<bar>?y\<bar>"
  proof -
    have "(2::real) ^ j * 2 powi b \<le> 2 ^ j * \<bar>real_of_int k\<bar>"
      using bb(1) unfolding powr_powi by (intro mult_left_mono) simp_all
    then show ?thesis unfolding pj by (simp add: abs_mult mult.commute)
  qed
  have hi: "\<bar>?y\<bar> < 2 ^ 53"
  proof -
    have "2 ^ j * \<bar>real_of_int k\<bar> < (2::real) ^ j * 2 powi (b + 1)"
      using bb(2) unfolding powr_powi by (intro mult_strict_left_mono) simp_all
    then show ?thesis unfolding pj1 by (simp add: abs_mult mult.commute)
  qed
  have eq: "real_of_int k = ?y * 2 powi (- int j)"
    by (simp add: power_int_minus field_simps)
  have yi: "?y = of_int (k * 2 ^ j)" by simp
  have "double (of_int k) = double (?y * 2 powi (- int j))" using eq by (rule arg_cong)
  also have "\<dots> = of_int (roundTiesToEven ?y) * 2 powi (- int j)"
    by (rule double_scaled [OF lo hi])
  also have "\<dots> = ?y * 2 powi (- int j)"
    unfolding yi roundTiesToEven_of_int by (rule refl)
  also have "\<dots> = of_int k" using eq by simp
  finally show ?thesis .
qed

lemma double_numeral: "numeral n < (2::int) ^ 53 \<Longrightarrow> double (numeral n) = numeral n"
  using double_of_int [of "numeral n"] by simp

lemma double_neg_numeral: "numeral n < (2::int) ^ 53 \<Longrightarrow> double (- numeral n) = - numeral n"
  using double_of_int [of "- numeral n"] by simp

lemma double_1: "double 1 = 1"
  using double_of_int [of 1] by simp

lemma double_log10_2: "double (log 10 2) = 5422874305198591 / 2 ^ 54"
proof -
  let ?y = "log 10 2 * 2 ^ 54 :: real"
  have lo: "of_int 5422874305198591 - 1 / 2 < ?y"
    using log10_2_bounds(1) by (simp add: field_simps)
  have hi: "?y < of_int 5422874305198591 + 1 / 2"
    using log10_2_bounds(2) by (simp add: field_simps)
  have r: "roundTiesToEven ?y = 5422874305198591" by (rule roundTiesToEven_near [OF lo hi])
  have "2 ^ 52 \<le> \<bar>?y\<bar>" "\<bar>?y\<bar> < 2 ^ 53" using lo hi by simp_all
  then have e: "double (?y * 2 powi (- 54)) = of_int (roundTiesToEven ?y) * 2 powi (- 54)"
    by (rule double_scaled)
  have a: "?y * 2 powi (- 54) = log 10 2" by simp
  show ?thesis using e unfolding a r by (simp add: field_simps)
qed

lemma double_issue_points: "double (5422874305198591 / 2 ^ 54 * 4) = 5422874305198591 / 2 ^ 52"
proof -
  let ?y = "5422874305198591 :: real"
  have r: "roundTiesToEven ?y = 5422874305198591"
    using roundTiesToEven_of_int [of 5422874305198591] by simp
  have "2 ^ 52 \<le> \<bar>?y\<bar>" "\<bar>?y\<bar> < 2 ^ 53" by simp_all
  then have e: "double (?y * 2 powi (- 52)) = of_int (roundTiesToEven ?y) * 2 powi (- 52)"
    by (rule double_scaled)
  have a: "?y * 2 powi (- 52) = 5422874305198591 / 2 ^ 54 * 4" by simp
  show ?thesis using e unfolding a r by (simp add: field_simps)
qed

lemma double_unarchived: "double (20 + 5422874305198591 / 2 ^ 52) = 186513411821501 / 2 ^ 43"
proof -
  let ?y = "(20 + 5422874305198591 / 2 ^ 52) * 2 ^ 48 :: real"
  have r: "roundTiesToEven ?y = 5968429178288032"
    by (rule roundTiesToEven_near) simp_all
  have "2 ^ 52 \<le> \<bar>?y\<bar>" "\<bar>?y\<bar> < 2 ^ 53" by simp_all
  then have e: "double (?y * 2 powi (- 48)) = of_int (roundTiesToEven ?y) * 2 powi (- 48)"
    by (rule double_scaled)
  have a: "?y * 2 powi (- 48) = 20 + 5422874305198591 / 2 ^ 52" by simp
  show ?thesis using e unfolding a r by (simp add: field_simps)
qed


lemma double_archived_value: "double (186513411821501 / 2 ^ 43 - 20) = 5422874305198592 / 2 ^ 52"
proof -
  let ?y = "5422874305198592 :: real"
  have r: "roundTiesToEven ?y = 5422874305198592"
    using roundTiesToEven_of_int [of 5422874305198592] by simp
  have "2 ^ 52 \<le> \<bar>?y\<bar>" "\<bar>?y\<bar> < 2 ^ 53" by simp_all
  then have e: "double (?y * 2 powi (- 52)) = of_int (roundTiesToEven ?y) * 2 powi (- 52)"
    by (rule double_scaled)
  have a: "?y * 2 powi (- 52) = 186513411821501 / 2 ^ 43 - 20" by simp
  show ?thesis using e unfolding a r by (simp add: field_simps)
qed

lemmas double_simps = double_0 double_1 double_numeral double_neg_numeral

lemma sa_fp_exact: "calculateRepoScore_sa_fp (\<lambda>x. x) config now repo = calculateRepoScore_sa config now repo"
  by (simp add: calculateRepoScore_sa_fp_def scoreBeforePenalty_def scoreAfterPenalty_def
      calculateRepoScore_sa_def starsPoints_def forksPoints_def recencyPoints_def
      watchersPoints_def sizePoints_def openIssuesPoints_def Let_def)

lemma gs_fp_exact: "calculateRepoScore_gs_fp (\<lambda>x. x) now repo = calculateRepoScore_gs now repo"
  by (simp add: calculateRepoScore_gs_fp_def calculateRepoScore_gs_def recencyPoints_gs_def Let_def)

lemma before_frame: "scoreBeforePenalty rnd config (repo\<lparr>archived := b\<rparr>) = scoreBeforePenalty rnd config repo"
  by (simp add: scoreBeforePenalty_def longDescription_def)

lemma after_frame: "scoreAfterPenalty rnd config (repo\<lparr>archived := b\<rparr>) s = scoreAfterPenalty rnd config repo s"
  by (simp add: scoreAfterPenalty_def)

lemma double_archived_score: "double (0 + 5422874305198591 / 2 ^ 52) = 5422874305198591 / 2 ^ 52"
proof -
  let ?y = "5422874305198591 :: real"
  have r: "roundTiesToEven ?y = 5422874305198591"
    using roundTiesToEven_of_int [of 5422874305198591] by simp
  have "2 ^ 52 \<le> \<bar>?y\<bar>" "\<bar>?y\<bar> < 2 ^ 53" by simp_all
  then have e: "double (?y * 2 powi (- 52)) = of_int (roundTiesToEven ?y) * 2 powi (- 52)"
    by (rule double_scaled)
  have a: "?y * 2 powi (- 52) = 0 + 5422874305198591 / 2 ^ 52" by simp
  show ?thesis using e unfolding a r by (simp add: field_simps)
qed

lemma after_only_issues:
  assumes "size_kb repo = 0" "0 < open_issues_count repo" "created_at repo < year2025Start"
  shows "scoreAfterPenalty rnd config repo s =
    rnd (s + min (rnd (rnd (log10 (rnd (real (open_issues_count repo) + 1)))
                         * openIssuesLogMultiplier config))
                 (openIssuesMaxPoints config))"
  using assms by (simp add: scoreAfterPenalty_def Let_def)

lemma after_nothing:
  assumes "size_kb repo = 0" "open_issues_count repo = 0" "created_at repo < year2025Start"
  shows "scoreAfterPenalty rnd config repo s = s"
  using assms by (simp add: scoreAfterPenalty_def Let_def)

lemma oneIssue_before: "scoreBeforePenalty double SCORING_CONFIG_repo oneIssue = 20"
  by (simp add: scoreBeforePenalty_def SCORING_CONFIG_repo_def oneIssue_def freshRepo_def
      log10_def longDescription_def truthy_def year2025Start_def Let_def double_simps)

lemma oneIssue_points:
  "min (double (double (log10 (double (real (open_issues_count oneIssue) + 1)))
                  * openIssuesLogMultiplier SCORING_CONFIG_repo))
       (openIssuesMaxPoints SCORING_CONFIG_repo) = 5422874305198591 / 2 ^ 52"
proof -
  have 1: "double (real (open_issues_count oneIssue) + 1) = 2"
    by (simp add: oneIssue_def double_simps)
  have 2: "double (log10 2) = 5422874305198591 / 2 ^ 54"
    unfolding log10_def by (rule double_log10_2)
  have 3: "openIssuesLogMultiplier SCORING_CONFIG_repo = 4"
    "openIssuesMaxPoints SCORING_CONFIG_repo = 8"
    by (simp_all add: SCORING_CONFIG_repo_def)
  have 4: "min (5422874305198591 / 2 ^ 52) (8::real) = 5422874305198591 / 2 ^ 52" by simp
  show ?thesis unfolding 1 2 3 double_issue_points by (rule 4)
qed

lemma oneIssue_after:
  "scoreAfterPenalty double SCORING_CONFIG_repo oneIssue s = double (s + 5422874305198591 / 2 ^ 52)"
proof -
  have "size_kb oneIssue = 0" "0 < open_issues_count oneIssue" "created_at oneIssue < year2025Start"
    by (simp_all add: oneIssue_def freshRepo_def year2025Start_def)
  from after_only_issues [OF this, of double SCORING_CONFIG_repo s]
  show ?thesis unfolding oneIssue_points .
qed

lemma sa_fp_archived_cases:
  "calculateRepoScore_sa_fp rnd config now (repo\<lparr>archived := b\<rparr>) =
     scoreAfterPenalty rnd config repo
       (if b then rnd (scoreBeforePenalty rnd config repo + archivedPenalty config)
        else scoreBeforePenalty rnd config repo)"
  by (simp add: calculateRepoScore_sa_fp_def before_frame after_frame Let_def)

lemma oneIssue_unarchived:
  "calculateRepoScore_sa_fp double SCORING_CONFIG_repo now (oneIssue\<lparr>archived := False\<rparr>)
     = 186513411821501 / 2 ^ 43"
  by (simp only: sa_fp_archived_cases oneIssue_before oneIssue_after double_unarchived if_False)

lemma oneIssue_archived:
  "calculateRepoScore_sa_fp double SCORING_CONFIG_repo now (oneIssue\<lparr>archived := True\<rparr>)
     = 5422874305198591 / 2 ^ 52"
proof -
  have p: "double (20 + archivedPenalty SCORING_CONFIG_repo) = 0"
    by (simp add: SCORING_CONFIG_repo_def double_simps)
  show ?thesis
    by (simp only: sa_fp_archived_cases oneIssue_before oneIssue_after p double_archived_score
        if_True)
qed

section \<open>Repository quality scorer: properties\<close>



text \<open>
  C8 (as amended). In exact arithmetic the score of a record with \<open>archived\<close> set is the
  score of the same record with \<open>archived\<close> clear minus 20, for both scorers. In the
  arithmetic of the code, whatever the rounding: the inline scorer of githubService.ts
  subtracts 20 as its last step, so its archived score is the rounded difference of the
  unarchived score and 20; \<^verbatim>\<open>calculateRepoScore\<close> of scoringAlgorithms.ts adds the penalty,
  which is -20 by default, to the running score before the size, open-issue and created-year
  steps and changes nothing else, so its archived score is the rounded difference of the
  unarchived score and 20 when none of these three steps applies.
\<close>

theorem archived_penalty_by_step:
  "calculateRepoScore_sa SCORING_CONFIG_repo now (repo\<lparr>archived := True\<rparr>)
     = calculateRepoScore_sa SCORING_CONFIG_repo now (repo\<lparr>archived := False\<rparr>) - 20
   \<and> calculateRepoScore_gs now (repo\<lparr>archived := True\<rparr>)
     = calculateRepoScore_gs now (repo\<lparr>archived := False\<rparr>) - 20
   \<and> calculateRepoScore_sa_fp (\<lambda>x. x) config now repo = calculateRepoScore_sa config now repo
   \<and> calculateRepoScore_gs_fp (\<lambda>x. x) now repo = calculateRepoScore_gs now repo
   \<and> calculateRepoScore_gs_fp rnd now (repo\<lparr>archived := True\<rparr>)
     = rnd (calculateRepoScore_gs_fp rnd now (repo\<lparr>archived := False\<rparr>) - 20)
   \<and> archivedPenalty SCORING_CONFIG_repo = - 20
   \<and> calculateRepoScore_sa_fp rnd config now (repo\<lparr>archived := False\<rparr>)
     = scoreAfterPenalty rnd config repo (scoreBeforePenalty rnd config repo)
   \<and> calculateRepoScore_sa_fp rnd config now (repo\<lparr>archived := True\<rparr>)
     = scoreAfterPenalty rnd config repo
         (rnd (scoreBeforePenalty rnd config repo + archivedPenalty config))
   \<and> (size_kb repo = 0 \<and> open_issues_count repo = 0 \<and> created_at repo < year2025Start
        \<longrightarrow> calculateRepoScore_sa_fp rnd SCORING_CONFIG_repo now (repo\<lparr>archived := True\<rparr>)
            = rnd (calculateRepoScore_sa_fp rnd SCORING_CONFIG_repo now
                     (repo\<lparr>archived := False\<rparr>) - 20))"
proof -
  have "calculateRepoScore_sa SCORING_CONFIG_repo now (repo\<lparr>archived := True\<rparr>)
     = calculateRepoScore_sa SCORING_CONFIG_repo now (repo\<lparr>archived := False\<rparr>) - 20"
    by (simp add: calculateRepoScore_sa_def SCORING_CONFIG_repo_def starsPoints_def
        forksPoints_def recencyPoints_def watchersPoints_def sizePoints_def
        openIssuesPoints_def longDescription_def)
  moreover have "calculateRepoScore_gs now (repo\<lparr>archived := True\<rparr>)
     = calculateRepoScore_gs now (repo\<lparr>archived := False\<rparr>) - 20"
    by (simp add: calculateRepoScore_gs_def longDescription_def recencyPoints_gs_def)
  moreover have "calculateRepoScore_gs_fp rnd now (repo\<lparr>archived := True\<rparr>)
     = rnd (calculateRepoScore_gs_fp rnd now (repo\<lparr>archived := False\<rparr>) - 20)"
    by (simp add: calculateRepoScore_gs_fp_def longDescription_def Let_def)
  moreover have "archivedPenalty SCORING_CONFIG_repo = - 20"
    by (simp add: SCORING_CONFIG_repo_def)
  moreover have "calculateRepoScore_sa_fp rnd SCORING_CONFIG_repo now (repo\<lparr>archived := True\<rparr>)
            = rnd (calculateRepoScore_sa_fp rnd SCORING_CONFIG_repo now
                     (repo\<lparr>archived := False\<rparr>) - 20)"
    if "size_kb repo = 0 \<and> open_issues_count repo = 0 \<and> created_at repo < year2025Start"
    using that by (simp add: sa_fp_archived_cases after_nothing SCORING_CONFIG_repo_def)
  ultimately show ?thesis
    using sa_fp_exact [of config now repo] gs_fp_exact [of now repo]
      sa_fp_archived_cases [where b = False and rnd = rnd and config = config and now = now
        and repo = repo]
      sa_fp_archived_cases [where b = True and rnd = rnd and config = config and now = now
        and repo = repo]
    by simp
qed

text \<open>An archived fork with no size, no open issues and no stars, created in 2020: in
  double arithmetic the scores are 0 and -20.\<close>

theorem archived_penalty_by_step_witness:
  "size_kb deadFork = 0 \<and> open_issues_count deadFork = 0 \<and> created_at deadFork < year2025Start
   \<and> calculateRepoScore_sa_fp double SCORING_CONFIG_repo 0 (deadFork\<lparr>archived := False\<rparr>) = 0
   \<and> calculateRepoScore_sa_fp double SCORING_CONFIG_repo 0 (deadFork\<lparr>archived := True\<rparr>) = - 20
   \<and> calculateRepoScore_sa_fp double SCORING_CONFIG_repo 0 (deadFork\<lparr>archived := True\<rparr>)
       = double (calculateRepoScore_sa_fp double SCORING_CONFIG_repo 0
                   (deadFork\<lparr>archived := False\<rparr>) - 20)"
proof -
  have h: "size_kb deadFork = 0 \<and> open_issues_count deadFork = 0
      \<and> created_at deadFork < year2025Start"
    by (simp add: deadFork_def year2025Start_def)
  have b: "scoreBeforePenalty double SCORING_CONFIG_repo deadFork = 0"
    by (simp add: scoreBeforePenalty_def SCORING_CONFIG_repo_def deadFork_def log10_def
        longDescription_def truthy_def year2025Start_def Let_def double_simps)
  have u: "calculateRepoScore_sa_fp double SCORING_CONFIG_repo 0 (deadFork\<lparr>archived := False\<rparr>) = 0"
    using h by (simp add: sa_fp_archived_cases after_nothing b)
  from archived_penalty_by_step [of 0 deadFork SCORING_CONFIG_repo double] h
  have "calculateRepoScore_sa_fp double SCORING_CONFIG_repo 0 (deadFork\<lparr>archived := True\<rparr>)
       = double (calculateRepoScore_sa_fp double SCORING_CONFIG_repo 0
                   (deadFork\<lparr>archived := False\<rparr>) - 20)"
    by blast
  then show ?thesis using h u by (simp add: double_simps)
qed

text \<open>A non-fork repository with one open issue and nothing else, in double arithmetic:
  unarchived 20 + 1.2041199826559248 rounds to 21.204119982655925, archived the score is
  1.2041199826559248, and 21.204119982655925 - 20 is 1.204119982655925, one unit in the
  last place above it.\<close>

theorem archived_penalty_sa_double_counterexample:
  "calculateRepoScore_sa_fp double SCORING_CONFIG_repo 0 (oneIssue\<lparr>archived := False\<rparr>)
       = 186513411821501 / 2 ^ 43
   \<and> calculateRepoScore_sa_fp double SCORING_CONFIG_repo 0 (oneIssue\<lparr>archived := True\<rparr>)
       = 5422874305198591 / 2 ^ 52
   \<and> double (calculateRepoScore_sa_fp double SCORING_CONFIG_repo 0
               (oneIssue\<lparr>archived := False\<rparr>) - 20)
       = 5422874305198592 / 2 ^ 52
   \<and> calculateRepoScore_sa_fp double SCORING_CONFIG_repo 0 (oneIssue\<lparr>archived := True\<rparr>)
       \<noteq> double (calculateRepoScore_sa_fp double SCORING_CONFIG_repo 0
                   (oneIssue\<lparr>archived := False\<rparr>) - 20)
   \<and> calculateRepoScore_sa_fp double SCORING_CONFIG_repo 0 (oneIssue\<lparr>archived := True\<rparr>)
       \<noteq> calculateRepoScore_sa_fp double SCORING_CONFIG_repo 0
            (oneIssue\<lparr>archived := False\<rparr>) - 20"
  unfolding oneIssue_unarchived oneIssue_archived double_archived_value by simp

text \<open>\<^verbatim>\<open>trim\<close> strips a trailing no-break space: the description of ten digits and a
  no-break space has eleven code units and earns no description bonus.\<close>

lemma padded_description_not_long:
  "length paddedDescription = 11
   \<and> \<not> longDescription (freshRepo\<lparr>description := Some paddedDescription\<rparr>)"
  by (simp add: paddedDescription_def utf16_def longDescription_def trim_def isWhiteSpace_def)




section \<open>Time-of-day bucket: properties\<close>

lemma getProductivityTime_buckets:
  "(getProductivityTime h = ''Morning'') = (5 \<le> h \<and> h < 12)
   \<and> (getProductivityTime h = ''Afternoon'') = (12 \<le> h \<and> h < 17)
   \<and> (getProductivityTime h = ''Evening'') = (17 \<le> h \<and> h < 22)
   \<and> (getProductivityTime h = ''Late Night'') = (22 \<le> h \<or> h < 5)"
  by (auto simp: getProductivityTime_def)

lemma timeOfDay_sa_buckets:
  "(timeOfDay_sa h = ''Morning'') = (5 \<le> h \<and> h < 12)
   \<and> (timeOfDay_sa h = ''Afternoon'') = (12 \<le> h \<and> h < 17)
   \<and> (timeOfDay_sa h = ''Evening'') = (17 \<le> h \<and> h < 21)
   \<and> (timeOfDay_sa h = ''Late Night'') = (21 \<le> h \<or> h < 5)"
  by (auto simp: timeOfDay_sa_def)

lemma productivity_gs_hour_21:
  "productivity_gs [(21, 1)] = \<lparr>timeOfDay = ''Evening'', peakHour = 21\<rparr>"
  by (simp add: productivity_gs_def getProductivityTime_def)

text \<open>
  C3. The claimed buckets are those of \<^verbatim>\<open>getProductivityTime\<close> (lemma
  \<open>getProductivityTime_buckets\<close>). \<^verbatim>\<open>calculateProductivity\<close> of scoringAlgorithms.ts ends
  the evening at 21: on the histogram with the single entry (21, 1) it returns peak hour 21
  with the bucket Late Night, where \<^verbatim>\<open>getProductivityTime\<close> gives Evening.
\<close>

theorem calculateProductivity_hour_21:
  "calculateProductivity [(21, 1)] = \<lparr>timeOfDay = ''Late Night'', peakHour = 21\<rparr>
   \<and> getProductivityTime 21 = ''Evening''"
  by (simp add: calculateProductivity_def timeOfDay_sa_def getProductivityTime_def)

section \<open>Archetype classifiers: properties\<close>

text \<open>
  C1 (as amended). For \<^verbatim>\<open>calculateArchetype\<close> of githubService.ts: the label is The Pull
  Request Pro exactly when the PR ratio exceeds 0.20 and \<open>prs\<close> exceeds 20; on the breakdown
  (commits 10, prs 5, issues 0, reviews 0), whose PR ratio exceeds 0.20, with
  \<open>totalCommits \<le> 50\<close> and the community rule not satisfied (with this breakdown no other
  rule can hold), the label is The Tinkerer. \<^verbatim>\<open>calculateArchetype\<close> of scoringAlgorithms.ts
  tests the PR share alone and returns The Pull Request Pro on this breakdown.
\<close>

theorem pr_rule_needs_volume:
  "(calculateArchetype_gs stats community commitTotal productivity stats7 = ''The Pull Request Pro'')
     = (0.20 < prRatio stats \<and> 20 < prs stats)
   \<and> 0.20 < prRatio \<lparr>commits = 10, prs = 5, issues = 0, reviews = 0\<rparr>
   \<and> (commitTotal \<le> 50 \<and> followers community \<le> 500 \<and> totalStars community \<le> 1000
        \<longrightarrow> calculateArchetype_gs \<lparr>commits = 10, prs = 5, issues = 0, reviews = 0\<rparr>
              community commitTotal productivity stats7 = ''The Tinkerer'')
   \<and> calculateArchetype_sa \<lparr>commits = 10, prs = 5, issues = 0, reviews = 0\<rparr>
        community commitTotal peak stats7 = ''The Pull Request Pro''"
proof -
  have "(calculateArchetype_gs stats community commitTotal productivity stats7
           = ''The Pull Request Pro'') = (0.20 < prRatio stats \<and> 20 < prs stats)"
    by (simp add: calculateArchetype_gs_def)
  moreover have "0.20 < prRatio \<lparr>commits = 10, prs = 5, issues = 0, reviews = 0\<rparr>"
    by (simp add: prRatio_def totalActivity_def)
  moreover have "commitTotal \<le> 50 \<and> followers community \<le> 500 \<and> totalStars community \<le> 1000
      \<longrightarrow> calculateArchetype_gs \<lparr>commits = 10, prs = 5, issues = 0, reviews = 0\<rparr>
            community commitTotal productivity stats7 = ''The Tinkerer''"
    by (simp add: calculateArchetype_gs_def prRatio_def reviewRatio_def issueRatio_def
        totalActivity_def)
  moreover have "calculateArchetype_sa \<lparr>commits = 10, prs = 5, issues = 0, reviews = 0\<rparr>
      community commitTotal peak stats7 = ''The Pull Request Pro''"
    by (simp add: calculateArchetype_sa_def prPercentage_def totalActivity_def)
  ultimately show ?thesis by blast
qed

theorem pr_rule_needs_volume_witness:
  "(10::int) \<le> 50 \<and> followers noCommunity \<le> 500 \<and> totalStars noCommunity \<le> 1000
   \<and> calculateArchetype_gs \<lparr>commits = 10, prs = 5, issues = 0, reviews = 0\<rparr> noCommunity 10
        \<lparr>timeOfDay = ''Afternoon'', peakHour = 14\<rparr> [0, 0, 10, 0, 0, 0, 0] = ''The Tinkerer''"
  using pr_rule_needs_volume [of "\<lparr>commits = 10, prs = 5, issues = 0, reviews = 0\<rparr>" noCommunity 10
      "\<lparr>timeOfDay = ''Afternoon'', peakHour = 14\<rparr>" "[0, 0, 10, 0, 0, 0, 0]" 14]
  by (simp add: noCommunity_def)

text \<open>\<^verbatim>\<open>calculateArchetype\<close> of scoringAlgorithms.ts on the breakdown of the claim, with 10
  commits in the year, no followers and no stars.\<close>

theorem pr_rule_sa_counterexample:
  "calculateArchetype_sa \<lparr>commits = 10, prs = 5, issues = 0, reviews = 0\<rparr> noCommunity 10 14
      [0, 0, 10, 0, 0, 0, 0] = ''The Pull Request Pro''
   \<and> calculateArchetype_sa \<lparr>commits = 10, prs = 5, issues = 0, reviews = 0\<rparr> noCommunity 10 14
      [0, 0, 10, 0, 0, 0, 0] \<noteq> ''The Tinkerer''"
  by (simp add: calculateArchetype_sa_def prPercentage_def totalActivity_def)

text \<open>
  C4 (as amended). \<^verbatim>\<open>calculateArchetype\<close> of githubService.ts is the decision list of the
  specification: its result is the label of the first satisfied rule of \<open>specRules\<close>, or
  The Tinkerer when none is satisfied. With rules 1 and 2 not satisfied, a satisfied
  Weekend Warrior rule decides whatever the time-of-day bucket is, and the label The Night
  Owl is produced only when the bucket is Late Night and \<open>totalCommits\<close> exceeds 50.
  \<^verbatim>\<open>calculateArchetype\<close> of scoringAlgorithms.ts is the decision list \<open>rules_sa\<close>: it tests
  Night Owl and Early Bird on the peak hour alone, before Weekend Warrior.
\<close>

theorem archetype_rule_order:
  "calculateArchetype_gs stats community commitTotal productivity stats7
     = firstSatisfied (specRules stats community commitTotal productivity stats7) ''The Tinkerer''
   \<and> (\<not> (0.20 < prRatio stats \<and> 20 < prs stats)
        \<and> \<not> (0.10 < reviewRatio stats \<and> 10 < reviews stats)
        \<and> exceeds (weekendRatio stats7 commitTotal) 0.35 \<and> 50 < commitTotal
        \<longrightarrow> calculateArchetype_gs stats community commitTotal productivity stats7
              = ''The Weekend Warrior'')
   \<and> (calculateArchetype_gs stats community commitTotal productivity stats7 = ''The Night Owl''
        \<longrightarrow> timeOfDay productivity = ''Late Night'' \<and> 50 < commitTotal)
   \<and> calculateArchetype_sa stats community commitTotal peak stats7
       = firstSatisfied (rules_sa stats community commitTotal peak stats7) ''The Tinkerer''"
proof -
  have "calculateArchetype_gs stats community commitTotal productivity stats7
      = firstSatisfied (specRules stats community commitTotal productivity stats7) ''The Tinkerer''"
    by (simp add: calculateArchetype_gs_def specRules_def)
  moreover have "\<not> (0.20 < prRatio stats \<and> 20 < prs stats)
      \<and> \<not> (0.10 < reviewRatio stats \<and> 10 < reviews stats)
      \<and> exceeds (weekendRatio stats7 commitTotal) 0.35 \<and> 50 < commitTotal
      \<longrightarrow> calculateArchetype_gs stats community commitTotal productivity stats7
            = ''The Weekend Warrior''"
    by (simp add: calculateArchetype_gs_def)
  moreover have "calculateArchetype_gs stats community commitTotal productivity stats7
      = ''The Night Owl'' \<longrightarrow> timeOfDay productivity = ''Late Night'' \<and> 50 < commitTotal"
    by (simp add: calculateArchetype_gs_def split: if_splits)
  moreover have "calculateArchetype_sa stats community commitTotal peak stats7
      = firstSatisfied (rules_sa stats community commitTotal peak stats7) ''The Tinkerer''"
    by (simp add: calculateArchetype_sa_def rules_sa_def)
  ultimately show ?thesis by blast
qed

theorem archetype_rule_order_witness:
  "exceeds (weekendRatio [100, 0, 0, 0, 0, 0, 0] 100) 0.35 \<and> (50::int) < 100
   \<and> calculateArchetype_gs \<lparr>commits = 100, prs = 0, issues = 0, reviews = 0\<rparr> noCommunity 100
        \<lparr>timeOfDay = ''Late Night'', peakHour = 23\<rparr> [100, 0, 0, 0, 0, 0, 0]
       = ''The Weekend Warrior''"
  using archetype_rule_order [of "\<lparr>commits = 100, prs = 0, issues = 0, reviews = 0\<rparr>"
      noCommunity 100 "\<lparr>timeOfDay = ''Late Night'', peakHour = 23\<rparr>" "[100, 0, 0, 0, 0, 0, 0]" 23,
      THEN conjunct2, THEN conjunct1]
  by (simp add: prRatio_def reviewRatio_def totalActivity_def weekendRatio_def
      weekendCommits_def at_index_def exceeds_def)

text \<open>\<^verbatim>\<open>calculateArchetype\<close> of scoringAlgorithms.ts with peak hour 23: all 100 commits on
  Sundays give The Night Owl, not The Weekend Warrior, and 10 commits in the year give
  The Night Owl although \<open>totalCommits\<close> does not exceed 50.\<close>

theorem archetype_rule_order_sa_counterexample:
  "calculateArchetype_sa \<lparr>commits = 100, prs = 0, issues = 0, reviews = 0\<rparr> noCommunity 100 23
      [100, 0, 0, 0, 0, 0, 0] = ''The Night Owl''
   \<and> exceeds (weekendPercentage [100, 0, 0, 0, 0, 0, 0]) 35
   \<and> calculateArchetype_sa \<lparr>commits = 10, prs = 0, issues = 0, reviews = 0\<rparr> noCommunity 10 23
      [0, 0, 10, 0, 0, 0, 0] = ''The Night Owl''"
  by (simp add: calculateArchetype_sa_def prPercentage_def reviewPercentage_def
      totalActivity_def weekendPercentage_def weekendCommits_def at_index_def exceeds_def)

section \<open>Language diversity scoring: properties\<close>

lemma map_of_mutateEntry:
  "map_of (mutateEntry lang f m) k = (if k = lang then map_option f (map_of m lang) else map_of m k)"
  by (induction m) auto

lemma keys_mutateEntry: "map fst (mutateEntry lang f m) = map fst m"
  by (induction m) auto

lemma map_of_languageStep:
  "map_of (languageStep config m repo) lang =
     (if counted repo lang
      then Some (bump config repo
             (case map_of m lang of
                None \<Rightarrow> \<lparr>LanguageScore.name = lang, weight = 0, repoCount = 0, recentCount = 0\<rparr>
              | Some s \<Rightarrow> s))
      else map_of m lang)"
  by (auto simp: languageStep_def counted_def Let_def map_of_mutateEntry map_add_def
      split: option.splits)

lemma keys_languageStep_distinct:
  "distinct (map fst m) \<Longrightarrow> distinct (map fst (languageStep config m repo))"
  by (auto simp: languageStep_def Let_def keys_mutateEntry map_of_eq_None_iff split: option.splits)

lemma accumulate_distinct: "distinct (map fst (accumulateLanguages config repos))"
  by (induction repos rule: rev_induct)
     (simp_all add: accumulateLanguages_def keys_languageStep_distinct)

lemma reposOfLanguage_snoc:
  "reposOfLanguage lang (repos @ [repo]) =
     reposOfLanguage lang repos @ (if \<not> fork repo \<and> language repo = Some lang then [repo] else [])"
  by (simp add: reposOfLanguage_def)

text \<open>After the first pass, a language has an entry exactly when a repository counts for
  it; the entry holds the number of these repositories, the number of the recent ones among
  them, and the weight they add up to.\<close>

lemma accumulate_lookup:
  "map_of (accumulateLanguages config repos) lang =
     (if lang = [] \<or> reposOfLanguage lang repos = [] then None
      else Some \<lparr>LanguageScore.name = lang,
                 weight = real (length (reposOfLanguage lang repos)) * baseWeight config
                        + real (length (recentOfLanguage lang repos)) * recentActivityBonus config,
                 repoCount = length (reposOfLanguage lang repos),
                 recentCount = length (recentOfLanguage lang repos)\<rparr>)"
proof (induction repos rule: rev_induct)
  case Nil
  show ?case by (simp add: accumulateLanguages_def reposOfLanguage_def)
next
  case (snoc repo repos)
  have step: "accumulateLanguages config (repos @ [repo])
                = languageStep config (accumulateLanguages config repos) repo"
    by (simp add: accumulateLanguages_def)
  show ?case
  proof (cases "counted repo lang")
    case False
    then have "reposOfLanguage lang (repos @ [repo]) = reposOfLanguage lang repos \<or> lang = []"
      by (auto simp: reposOfLanguage_snoc counted_def)
    then show ?thesis using False snoc.IH
      by (auto simp: step map_of_languageStep recentOfLanguage_def)
  next
    case True
    then have r: "reposOfLanguage lang (repos @ [repo]) = reposOfLanguage lang repos @ [repo]"
      and l: "lang \<noteq> []"
      by (auto simp: reposOfLanguage_snoc counted_def)
    show ?thesis using True l snoc.IH
      by (simp add: step map_of_languageStep recentOfLanguage_def r bump_def Let_def algebra_simps)
  qed
qed

lemma map_of_scores:
  "map_of (calculateLanguageScores config repos) lang
     = map_option (diversityStep config) (map_of (accumulateLanguages config repos) lang)"
proof -
  have "map_of (map (\<lambda>(k, s). (k, f s)) m) k = map_option f (map_of m k)"
    for f :: "LanguageScore \<Rightarrow> LanguageScore" and m k
    by (induction m) auto
  then show ?thesis by (simp add: calculateLanguageScores_def)
qed

text \<open>
  C6. Under the default configuration, the second pass of \<^verbatim>\<open>calculateLanguageScores\<close>
  changes the weight of an entry and nothing else; the entry of a language holds as
  \<open>repoCount\<close> the number \<open>n\<close> of non-fork repositories with that language, and its final
  weight is the weight of the first pass (\<open>n\<close> plus the number of those pushed in 2025 or
  later) plus \<open>(n - 3) * 0.5\<close> when \<open>n \<ge> 3\<close> and plus nothing when \<open>n < 3\<close>. On an entry with
  repo count 3, 4, 5 the second pass adds 0, 0.5, 1.0, and on an entry with repo count 2 it
  adds nothing.
\<close>

theorem language_diversity_bonus:
  "map_of (accumulateLanguages SCORING_CONFIG_language repos) lang =
     (if lang = [] \<or> reposOfLanguage lang repos = [] then None
      else Some \<lparr>LanguageScore.name = lang,
                 weight = real (length (reposOfLanguage lang repos))
                        + real (length (recentOfLanguage lang repos)),
                 repoCount = length (reposOfLanguage lang repos),
                 recentCount = length (recentOfLanguage lang repos)\<rparr>)
   \<and> map_of (calculateLanguageScores SCORING_CONFIG_language repos) lang =
     (if lang = [] \<or> reposOfLanguage lang repos = [] then None
      else Some \<lparr>LanguageScore.name = lang,
                 weight = real (length (reposOfLanguage lang repos))
                        + real (length (recentOfLanguage lang repos))
                        + (if 3 \<le> length (reposOfLanguage lang repos)
                           then (real (length (reposOfLanguage lang repos)) - 3) * 0.5 else 0),
                 repoCount = length (reposOfLanguage lang repos),
                 recentCount = length (recentOfLanguage lang repos)\<rparr>)
   \<and> diversityStep SCORING_CONFIG_language score
       = score\<lparr>weight := weight score
                 + (if 3 \<le> repoCount score then (real (repoCount score) - 3) * 0.5 else 0)\<rparr>
   \<and> weight (diversityStep SCORING_CONFIG_language (score\<lparr>repoCount := 2\<rparr>)) = weight score
   \<and> weight (diversityStep SCORING_CONFIG_language (score\<lparr>repoCount := 3\<rparr>)) = weight score
   \<and> weight (diversityStep SCORING_CONFIG_language (score\<lparr>repoCount := 4\<rparr>)) = weight score + 0.5
   \<and> weight (diversityStep SCORING_CONFIG_language (score\<lparr>repoCount := 5\<rparr>)) = weight score + 1.0"
proof -
  have "map_of (accumulateLanguages SCORING_CONFIG_language repos) lang =
     (if lang = [] \<or> reposOfLanguage lang repos = [] then None
      else Some \<lparr>LanguageScore.name = lang,
                 weight = real (length (reposOfLanguage lang repos))
                        + real (length (recentOfLanguage lang repos)),
                 repoCount = length (reposOfLanguage lang repos),
                 recentCount = length (recentOfLanguage lang repos)\<rparr>)"
    by (simp add: accumulate_lookup SCORING_CONFIG_language_def)
  moreover have "map_of (calculateLanguageScores SCORING_CONFIG_language repos) lang =
     (if lang = [] \<or> reposOfLanguage lang repos = [] then None
      else Some \<lparr>LanguageScore.name = lang,
                 weight = real (length (reposOfLanguage lang repos))
                        + real (length (recentOfLanguage lang repos))
                        + (if 3 \<le> length (reposOfLanguage lang repos)
                           then (real (length (reposOfLanguage lang repos)) - 3) * 0.5 else 0),
                 repoCount = length (reposOfLanguage lang repos),
                 recentCount = length (recentOfLanguage lang repos)\<rparr>)"
    by (simp add: map_of_scores accumulate_lookup diversityStep_def SCORING_CONFIG_language_def
        Let_def of_nat_diff)
  moreover have "diversityStep SCORING_CONFIG_language score
       = score\<lparr>weight := weight score
                 + (if 3 \<le> repoCount score then (real (repoCount score) - 3) * 0.5 else 0)\<rparr>"
    by (simp add: diversityStep_def SCORING_CONFIG_language_def Let_def of_nat_diff)
  moreover have
    "weight (diversityStep SCORING_CONFIG_language (score\<lparr>repoCount := 2\<rparr>)) = weight score"
    "weight (diversityStep SCORING_CONFIG_language (score\<lparr>repoCount := 3\<rparr>)) = weight score"
    "weight (diversityStep SCORING_CONFIG_language (score\<lparr>repoCount := 4\<rparr>)) = weight score + 0.5"
    "weight (diversityStep SCORING_CONFIG_language (score\<lparr>repoCount := 5\<rparr>)) = weight score + 1.0"
    by (simp_all add: diversityStep_def SCORING_CONFIG_language_def Let_def)
  ultimately show ?thesis by blast
qed

section \<open>Contribution aggregation: properties\<close>

lemma activeRun_zero: "activeRun cs i 0 = (i \<le> length cs)"
  by (simp add: activeRun_def)

lemma activeRun_length: "activeRun cs i n \<Longrightarrow> i + n \<le> length cs"
  by (simp add: activeRun_def)

lemma activeRun_within:
  "i + n \<le> length pre \<Longrightarrow> activeRun (pre @ [c]) i n = activeRun pre i n"
  by (simp add: activeRun_def)

lemma activeRun_at_end:
  assumes "i + n = Suc (length pre)" and "0 < n"
  shows "activeRun (pre @ [c]) i n = (0 < c \<and> activeRun pre i (n - 1))"
proof -
  from assms have i: "i \<le> length pre" and n: "n = Suc (length pre - i)" by simp_all
  then have "take n (drop i (pre @ [c])) = drop i pre @ [c]" by simp
  moreover have "take (n - 1) (drop i pre) = drop i pre" using n by simp
  ultimately show ?thesis using assms by (auto simp: activeRun_def)
qed

lemma activeRun_snoc_cases:
  assumes "activeRun (pre @ [c]) i n"
  shows "activeRun pre i n \<or> n = 0
         \<or> (i + n = Suc (length pre) \<and> 0 < c \<and> activeRun pre i (n - 1))"
proof (cases "i + n \<le> length pre")
  case True
  then show ?thesis using assms by (simp add: activeRun_within)
next
  case False
  then have e: "i + n = Suc (length pre)" using activeRun_length [OF assms] by simp
  show ?thesis
  proof (cases "n = 0")
    case True
    then show ?thesis by simp
  next
    case False
    then show ?thesis using assms e activeRun_at_end [OF e, of c] by simp
  qed
qed

lemma streakInv_Nil: "streakInv [] (0, 0)"
  by (simp add: streakInv_def activeRun_def)

lemma streakInv_step:
  assumes "streakInv pre st"
  shows "streakInv (pre @ [c]) (streakStep st c)"
proof -
  obtain cur mx where st: "st = (cur, mx)" by (cases st)
  from assms st have
    1: "cur \<le> length pre" and 2: "activeRun pre (length pre - cur) cur"
    and 3: "\<And>i n. activeRun pre i n \<Longrightarrow> i + n = length pre \<Longrightarrow> n \<le> cur"
    and 5: "\<And>i n. activeRun pre i n \<Longrightarrow> n \<le> mx"
    by (auto simp: streakInv_def)
  from assms st obtain i0 where 4: "activeRun pre i0 mx" by (auto simp: streakInv_def)
  have old: "activeRun (pre @ [c]) i0 mx"
    using 4 activeRun_length [OF 4] by (simp add: activeRun_within)
  show ?thesis
  proof (cases "0 < c")
    case False
    then have s: "streakStep st c = (0, mx)" by (simp add: streakStep_def st)
    have b: "n \<le> mx" if "activeRun (pre @ [c]) i n" for i n
      using activeRun_snoc_cases [OF that] False 5 [of i n] by auto
    have a: "n \<le> 0" if "activeRun (pre @ [c]) i n" "i + n = length (pre @ [c])" for i n
      using activeRun_snoc_cases [OF that(1)] False that(2) activeRun_length [of pre i n] by auto
    show ?thesis unfolding s streakInv_def using a b old
      by (auto simp: activeRun_zero)
  next
    case True
    then have s: "streakStep st c = (cur + 1, if mx < cur + 1 then cur + 1 else mx)"
      by (simp add: streakStep_def st)
    have a: "activeRun (pre @ [c]) (length (pre @ [c]) - (cur + 1)) (cur + 1)"
      using 1 2 True activeRun_at_end [of "length pre - cur" "cur + 1" pre c] by simp
    have b: "n \<le> cur + 1" if "activeRun (pre @ [c]) i n" "i + n = length (pre @ [c])" for i n
    proof (cases "n = 0")
      case False
      then have "activeRun pre i (n - 1)"
        using that activeRun_at_end [of i n pre c] by simp
      moreover have "i + (n - 1) = length pre" using that(2) False by simp
      ultimately have "n - 1 \<le> cur" by (rule 3)
      then show ?thesis by simp
    qed simp
    have c: "\<exists>i. activeRun (pre @ [c]) i (if mx < cur + 1 then cur + 1 else mx)"
      using a old by auto
    have d: "n \<le> (if mx < cur + 1 then cur + 1 else mx)" if "activeRun (pre @ [c]) i n" for i n
    proof -
      from activeRun_snoc_cases [OF that]
      consider "activeRun pre i n" | "n = 0" | "i + n = Suc (length pre)" by blast
      then show ?thesis
      proof cases
        case 1
        then show ?thesis using 5 [of i n] by auto
      next
        case 2
        then show ?thesis by simp
      next
        case 3
        then show ?thesis using b [OF that] by auto
      qed
    qed
    show ?thesis unfolding s streakInv_def using 1 a b c d by auto
  qed
qed

lemma streakInv_foldl: "streakInv cs (foldl streakStep (0, 0) cs)"
  by (induction cs rule: rev_induct) (simp_all add: streakInv_Nil streakInv_step)

lemma streak_of_fold:
  "(currentStreak (foldl (dayStep tz) a ds), maxStreak (foldl (dayStep tz) a ds))
     = foldl streakStep (currentStreak a, maxStreak a) (map countOf ds)"
  by (induction ds arbitrary: a) (simp_all add: dayStep_def Let_def)

lemma aggregate_streaks:
  "foldl streakStep (0, 0) (orderedCounts yearData)
     = (currentStreak (aggregateContributions tz yearData), longestStreak tz yearData)"
  using streak_of_fold [of tz
      "\<lparr>totalCommits = 0, currentStreak = 0, maxStreak = 0, weekdayStats = [0, 0, 0, 0, 0, 0, 0]\<rparr>"
      "sort_key date yearData"]
  by (simp add: longestStreak_def orderedCounts_def aggregateContributions_def)

lemma longestStreak_fold:
  "longestStreak tz yearData = snd (foldl streakStep (0, 0) (orderedCounts yearData))"
  by (simp add: aggregate_streaks [of yearData tz])

lemma streak_idle: "\<forall>c\<in>set cs. c \<le> 0 \<Longrightarrow> foldl streakStep (0, mx) cs = (0, mx)"
  by (induction cs) (simp_all add: streakStep_def)

text \<open>
  C7. For every sequence of daily contributions, the longest streak computed by the
  aggregation is the greatest length of an active run of the counts in date order: some
  active run has that length and no active run is longer. The running counter ends as the
  length of the longest active run that reaches the last day (it is 0 when the last day has
  no contribution). Date-ordered counts 1, 0, 1, 1, 0, 1, 1, 1 give 3, and counts that are
  all zero give 0.
\<close>

theorem longest_streak_is_longest_active_run:
  "(\<exists>i. activeRun (orderedCounts yearData) i (longestStreak tz yearData))
   \<and> (\<forall>i n. activeRun (orderedCounts yearData) i n \<longrightarrow> n \<le> longestStreak tz yearData)
   \<and> activeRun (orderedCounts yearData)
        (length (orderedCounts yearData) - currentStreak (aggregateContributions tz yearData))
        (currentStreak (aggregateContributions tz yearData))
   \<and> (\<forall>i n. activeRun (orderedCounts yearData) i n \<and> i + n = length (orderedCounts yearData)
          \<longrightarrow> n \<le> currentStreak (aggregateContributions tz yearData))
   \<and> (orderedCounts yearData = [1, 0, 1, 1, 0, 1, 1, 1] \<longrightarrow> longestStreak tz yearData = 3)
   \<and> ((\<forall>c\<in>set (orderedCounts yearData). c = 0) \<longrightarrow> longestStreak tz yearData = 0)"
proof -
  let ?cs = "orderedCounts yearData"
  let ?cur = "currentStreak (aggregateContributions tz yearData)"
  have "streakInv ?cs (foldl streakStep (0, 0) ?cs)" by (rule streakInv_foldl)
  then have inv: "streakInv ?cs (?cur, longestStreak tz yearData)"
    by (simp add: aggregate_streaks [of yearData tz])
  have m: "longestStreak tz yearData = snd (foldl streakStep (0, 0) ?cs)"
    by (rule longestStreak_fold)
  have "\<exists>i. activeRun ?cs i (longestStreak tz yearData)"
    using inv unfolding streakInv_def by simp
  moreover have "\<forall>i n. activeRun ?cs i n \<longrightarrow> n \<le> longestStreak tz yearData"
    using inv unfolding streakInv_def by simp
  moreover have "activeRun ?cs (length ?cs - ?cur) ?cur"
    using inv unfolding streakInv_def by simp
  moreover have "\<forall>i n. activeRun ?cs i n \<and> i + n = length ?cs \<longrightarrow> n \<le> ?cur"
    using inv unfolding streakInv_def by simp
  moreover have "?cs = [1, 0, 1, 1, 0, 1, 1, 1] \<longrightarrow> longestStreak tz yearData = 3"
    unfolding m by (simp add: streakStep_def)
  moreover have "(\<forall>c\<in>set ?cs. c = 0) \<longrightarrow> longestStreak tz yearData = 0"
  proof
    assume "\<forall>c\<in>set ?cs. c = 0"
    then have "\<forall>c\<in>set ?cs. c \<le> 0" by auto
    then have "foldl streakStep (0, 0) ?cs = (0, 0)" by (rule streak_idle)
    then show "longestStreak tz yearData = 0" unfolding m by simp
  qed
  ultimately show ?thesis by blast
qed

theorem longest_streak_is_longest_active_run_witness:
  "orderedCounts eightDays = [1, 0, 1, 1, 0, 1, 1, 1]
   \<and> activeRun (orderedCounts eightDays) 5 3
   \<and> longestStreak 0 eightDays = 3
   \<and> (3::nat) \<le> longestStreak 0 eightDays
   \<and> longestStreak 0 [onDay 0 0, onDay 1 0, onDay 2 0] = 0"
proof -
  have cs: "orderedCounts eightDays = [1, 0, 1, 1, 0, 1, 1, 1]"
    by (simp add: orderedCounts_def eightDays_def onDay_def countOf_def)
  have run: "activeRun (orderedCounts eightDays) 5 3"
    unfolding cs by (simp add: activeRun_def)
  have zs: "\<forall>c\<in>set (orderedCounts [onDay 0 0, onDay 1 0, onDay 2 0]). c = 0"
    by (simp add: orderedCounts_def onDay_def countOf_def)
  from longest_streak_is_longest_active_run [of eightDays 0] cs run
  have "longestStreak 0 eightDays = 3" "3 \<le> longestStreak 0 eightDays" by blast+
  moreover from longest_streak_is_longest_active_run [of "[onDay 0 0, onDay 1 0, onDay 2 0]" 0] zs
  have "longestStreak 0 [onDay 0 0, onDay 1 0, onDay 2 0] = 0" by blast
  ultimately show ?thesis using cs run by simp
qed

section \<open>Busiest weekday: properties\<close>

lemma Math_max_nonempty:
  "xs \<noteq> [] \<Longrightarrow> \<exists>m. Math_max xs = Some m \<and> m \<in> set xs \<and> (\<forall>x\<in>set xs. x \<le> m)"
proof (induction xs)
  case Nil
  then show ?case by simp
next
  case (Cons x xs)
  show ?case
  proof (cases "xs = []")
    case True
    then show ?thesis by simp
  next
    case False
    with Cons.IH obtain m where "Math_max xs = Some m" "m \<in> set xs" "\<forall>y\<in>set xs. y \<le> m"
      by blast
    then show ?thesis by (auto simp: max_def)
  qed
qed

lemma indexOf_member:
  "v \<in> set xs \<Longrightarrow>
     0 \<le> indexOf xs v \<and> nat (indexOf xs v) < length xs \<and> xs ! nat (indexOf xs v) = v
     \<and> (\<forall>j<nat (indexOf xs v). xs ! j \<noteq> v)"
proof (induction xs)
  case Nil
  then show ?case by simp
next
  case (Cons x xs)
  show ?case
  proof (cases "x = v")
    case True
    then show ?thesis by simp
  next
    case False
    with Cons.prems have "v \<in> set xs" by simp
    from Cons.IH [OF this] have ih: "0 \<le> indexOf xs v" "nat (indexOf xs v) < length xs"
      "xs ! nat (indexOf xs v) = v" "\<forall>j<nat (indexOf xs v). xs ! j \<noteq> v" by simp_all
    have e: "indexOf (x # xs) v = indexOf xs v + 1" using False ih(1) by (simp add: Let_def)
    have n: "nat (indexOf xs v + 1) = Suc (nat (indexOf xs v))" using ih(1) by simp
    show ?thesis unfolding e n using ih False
      by (auto simp: nth_Cons split: nat.splits)
  qed
qed

lemma maxDayIndex_nonempty:
  assumes "stats \<noteq> []"
  shows "0 \<le> maxDayIndex stats \<and> nat (maxDayIndex stats) < length stats
     \<and> (\<forall>j<length stats. stats ! j \<le> stats ! nat (maxDayIndex stats))
     \<and> (\<forall>j<nat (maxDayIndex stats). stats ! j < stats ! nat (maxDayIndex stats))"
proof -
  from Math_max_nonempty [OF assms] obtain m where
    m: "Math_max stats = Some m" "m \<in> set stats" "\<forall>x\<in>set stats. x \<le> m" by blast
  have i: "maxDayIndex stats = indexOf stats m" by (simp add: maxDayIndex_def m)
  note f = indexOf_member [OF m(2)]
  have "stats ! j < m" if "j < nat (indexOf stats m)" for j
  proof -
    have "j < length stats" using that f by simp
    then have "stats ! j \<le> m" using m(3) by simp
    moreover have "stats ! j \<noteq> m" using that f by simp
    ultimately show ?thesis by simp
  qed
  then show ?thesis unfolding i using f m(3) by simp
qed

text \<open>
  C9. For every weekday histogram of seven slots, the busiest weekday is the name at the
  index \<open>maxDayIndex\<close>, an index that holds the greatest value of the histogram and before
  which every slot is strictly smaller (ties go to the lowest index). The histogram
  5, 0, 0, 0, 0, 0, 5 gives index 0, Sundays.
\<close>

theorem busiest_day_is_first_maximum:
  "(length stats = 7 \<longrightarrow>
      0 \<le> maxDayIndex stats \<and> nat (maxDayIndex stats) < 7
      \<and> (\<forall>j<7. stats ! j \<le> stats ! nat (maxDayIndex stats))
      \<and> (\<forall>j<nat (maxDayIndex stats). stats ! j < stats ! nat (maxDayIndex stats))
      \<and> busiestDay stats = Some (days ! nat (maxDayIndex stats)))
   \<and> maxDayIndex [5, 0, 0, 0, 0, 0, 5] = 0
   \<and> busiestDay [5, 0, 0, 0, 0, 0, 5] = Some ''Sundays''"
proof -
  have "0 \<le> maxDayIndex stats \<and> nat (maxDayIndex stats) < 7
      \<and> (\<forall>j<7. stats ! j \<le> stats ! nat (maxDayIndex stats))
      \<and> (\<forall>j<nat (maxDayIndex stats). stats ! j < stats ! nat (maxDayIndex stats))
      \<and> busiestDay stats = Some (days ! nat (maxDayIndex stats))" if len: "length stats = 7"
  proof -
    from len have "stats \<noteq> []" by auto
    from maxDayIndex_nonempty [OF this] len
    have g: "0 \<le> maxDayIndex stats" "nat (maxDayIndex stats) < 7"
      "\<forall>j<7. stats ! j \<le> stats ! nat (maxDayIndex stats)"
      "\<forall>j<nat (maxDayIndex stats). stats ! j < stats ! nat (maxDayIndex stats)"
      by simp_all
    have "busiestDay stats = Some (days ! nat (maxDayIndex stats))"
      using g(1,2) by (simp add: busiestDay_def at_index_def days_def Let_def)
    with g show ?thesis by blast
  qed
  moreover have "maxDayIndex [5, 0, 0, 0, 0, 0, 5] = 0"
    by (simp add: maxDayIndex_def)
  moreover have "busiestDay [5, 0, 0, 0, 0, 0, 5] = Some ''Sundays''"
    by (simp add: maxDayIndex_def busiestDay_def at_index_def days_def)
  ultimately show ?thesis by blast
qed

theorem busiest_day_is_first_maximum_witness:
  "length [1, 7, 3, 7, 0, 2, 4 :: int] = 7
   \<and> maxDayIndex [1, 7, 3, 7, 0, 2, 4] = 1
   \<and> busiestDay [1, 7, 3, 7, 0, 2, 4] = Some ''Mondays''
   \<and> [1, 7, 3, 7, 0, 2, 4 :: int] ! 3 \<le> [1, 7, 3, 7, 0, 2, 4] ! nat (maxDayIndex [1, 7, 3, 7, 0, 2, 4])"
proof -
  have len: "length [1, 7, 3, 7, 0, 2, 4 :: int] = 7" by simp
  have idx: "maxDayIndex [1, 7, 3, 7, 0, 2, 4] = 1" by (simp add: maxDayIndex_def Let_def)
  from busiest_day_is_first_maximum [of "[1, 7, 3, 7, 0, 2, 4]"] len
  have "busiestDay [1, 7, 3, 7, 0, 2, 4] = Some (days ! nat (maxDayIndex [1, 7, 3, 7, 0, 2, 4]))"
    and "\<forall>j<7. [1, 7, 3, 7, 0, 2, 4 :: int] ! j
            \<le> [1, 7, 3, 7, 0, 2, 4] ! nat (maxDayIndex [1, 7, 3, 7, 0, 2, 4])"
    by blast+
  then have "busiestDay [1, 7, 3, 7, 0, 2, 4] = Some ''Mondays''"
    and "[1, 7, 3, 7, 0, 2, 4 :: int] ! 3 \<le> [1, 7, 3, 7, 0, 2, 4] ! nat (maxDayIndex [1, 7, 3, 7, 0, 2, 4])"
    by (simp_all add: idx days_def)
  with len idx show ?thesis by blast
qed

section \<open>Top repository selection: properties\<close>

lemma selInv_fresh:
  assumes "\<forall>j<length pre. score (pre ! j) \<le> bound" and "bound < score repo" and "- 1 \<le> bound"
    and "bestScore sel = bound"
  shows "selInv score (pre @ [repo]) (selectStep score sel repo)"
proof -
  have le: "score ((pre @ [repo]) ! j) \<le> score repo" if "j < length (pre @ [repo])" for j
  proof (cases "j < length pre")
    case True
    then have "score (pre ! j) \<le> bound" using assms(1) by simp
    then show ?thesis using True assms(2) by (simp add: nth_append)
  next
    case False
    then have "j = length pre" using that by simp
    then show ?thesis by simp
  qed
  have lt: "score ((pre @ [repo]) ! j) < score repo" if "j < length pre" for j
  proof -
    have "score (pre ! j) \<le> bound" using assms(1) that by simp
    then show ?thesis using that assms(2) by (simp add: nth_append)
  qed
  have "length pre < length (pre @ [repo])
      \<and> bestRepo (selectStep score sel repo) = Some ((pre @ [repo]) ! length pre)
      \<and> bestScore (selectStep score sel repo) = score ((pre @ [repo]) ! length pre)
      \<and> - 1 < score ((pre @ [repo]) ! length pre)
      \<and> (\<forall>j<length (pre @ [repo]).
            score ((pre @ [repo]) ! j) \<le> score ((pre @ [repo]) ! length pre))
      \<and> (\<forall>j<length pre. score ((pre @ [repo]) ! j) < score ((pre @ [repo]) ! length pre))"
    using le lt assms(2,3,4) by (simp add: selectStep_def Let_def)
  then show ?thesis unfolding selInv_def by blast
qed

lemma selInv_step:
  assumes "selInv score pre sel"
  shows "selInv score (pre @ [repo]) (selectStep score sel repo)"
proof -
  from assms consider
    (none) "bestRepo sel = None" "bestScore sel = - 1" "\<forall>j<length pre. score (pre ! j) \<le> - 1"
  | (some) i where "i < length pre" "bestRepo sel = Some (pre ! i)"
      "bestScore sel = score (pre ! i)" "- 1 < score (pre ! i)"
      "\<forall>j<length pre. score (pre ! j) \<le> score (pre ! i)"
      "\<forall>j<i. score (pre ! j) < score (pre ! i)"
    unfolding selInv_def by (elim disjE exE conjE) blast+
  then show ?thesis
  proof cases
    case none
    show ?thesis
    proof (cases "- 1 < score repo")
      case True
      then show ?thesis using none selInv_fresh [of pre score "- 1" repo sel] by simp
    next
      case False
      then have "\<forall>j<length (pre @ [repo]). score ((pre @ [repo]) ! j) \<le> - 1"
        using none(3) by (auto simp: nth_append less_Suc_eq)
      then show ?thesis using none False by (simp add: selInv_def selectStep_def Let_def)
    qed
  next
    case some
    show ?thesis
    proof (cases "score (pre ! i) < score repo")
      case True
      then show ?thesis using some selInv_fresh [of pre score "score (pre ! i)" repo sel] by simp
    next
      case False
      have "\<forall>j<length (pre @ [repo]). score ((pre @ [repo]) ! j) \<le> score (pre ! i)"
        using some(5) False by (auto simp: nth_append less_Suc_eq)
      moreover have "\<forall>j<i. score ((pre @ [repo]) ! j) < score (pre ! i)"
        using some(1,6) by (auto simp: nth_append)
      ultimately have "i < length (pre @ [repo])
          \<and> bestRepo (selectStep score sel repo) = Some ((pre @ [repo]) ! i)
          \<and> bestScore (selectStep score sel repo) = score ((pre @ [repo]) ! i)
          \<and> - 1 < score ((pre @ [repo]) ! i)
          \<and> (\<forall>j<length (pre @ [repo]). score ((pre @ [repo]) ! j) \<le> score ((pre @ [repo]) ! i))
          \<and> (\<forall>j<i. score ((pre @ [repo]) ! j) < score ((pre @ [repo]) ! i))"
        using some False by (simp add: selectStep_def Let_def nth_append)
      then show ?thesis unfolding selInv_def by blast
    qed
  qed
qed

lemma selInv_selectWith: "selInv score repos (selectWith score repos)"
proof (induction repos rule: rev_induct)
  case Nil
  show ?case by (simp add: selInv_def selectWith_def)
next
  case (snoc repo repos)
  then show ?case using selInv_step [of score repos "selectWith score repos" repo]
    by (simp add: selectWith_def)
qed

lemma select_none:
  assumes "\<forall>r\<in>set repos. score r \<le> - 1"
  shows "bestRepo (selectWith score repos) = None"
proof -
  have "\<not> (\<exists>i<length repos. - 1 < score (repos ! i))"
  proof
    assume "\<exists>i<length repos. - 1 < score (repos ! i)"
    then obtain i where i: "i < length repos" "- 1 < score (repos ! i)" by blast
    then have "score (repos ! i) \<le> - 1" using assms by simp
    then show False using i(2) by simp
  qed
  then show ?thesis using selInv_selectWith [of score repos] unfolding selInv_def by blast
qed

lemma select_first_maximum:
  assumes "\<exists>r\<in>set repos. - 1 < score r"
  shows "\<exists>i<length repos. bestRepo (selectWith score repos) = Some (repos ! i)
     \<and> (\<forall>j<length repos. score (repos ! j) \<le> score (repos ! i))
     \<and> (\<forall>j<i. score (repos ! j) < score (repos ! i))"
proof -
  from assms obtain k where k: "k < length repos" "- 1 < score (repos ! k)"
    by (auto simp: in_set_conv_nth)
  have "\<not> (\<forall>j<length repos. score (repos ! j) \<le> - 1)"
  proof
    assume "\<forall>j<length repos. score (repos ! j) \<le> - 1"
    then have "score (repos ! k) \<le> - 1" using k(1) by simp
    then show False using k(2) by simp
  qed
  then show ?thesis using selInv_selectWith [of score repos] unfolding selInv_def by blast
qed

lemma dead_fork_score:
  assumes "fork repo" "archived repo" "stargazers_count repo = 0" "forks_count repo = 0"
    "watchers_count repo = 0" "Repo.description repo = None" "Repo.topics repo = []"
    "Repo.language repo = None" "pushed_at repo < year2025Start"
  shows "calculateRepoScore_gs now repo = - 20"
  using assms
  by (simp add: calculateRepoScore_gs_def log10_def recencyPoints_gs_def longDescription_def
      truthy_def)

text \<open>
  C10. The selection of \<^verbatim>\<open>fetchUserStory\<close> starts from no repository and the best score -1
  and replaces its choice only on a strictly greater score. Hence, for every repository
  collection in which every score is at most -1, no repository is selected and the report
  carries the No Public Repos placeholder; such collections exist, since an archived fork
  without stars, forks, watchers, description, topics or language, last pushed before 2025,
  scores -20 at every clock value. When some score exceeds -1, the selected repository is
  the first one of the collection that attains the greatest score.
\<close>

theorem top_repo_selection:
  "((\<forall>r\<in>set repos. calculateRepoScore_gs now r \<le> - 1)
      \<longrightarrow> bestRepo (selectBest now repos) = None
          \<and> topRepo (bestRepo (selectBest now repos)) = noPublicRepos
          \<and> Repository.name (topRepo (bestRepo (selectBest now repos))) = ''No Public Repos'')
   \<and> ((\<exists>r\<in>set repos. - 1 < calculateRepoScore_gs now r)
      \<longrightarrow> (\<exists>i<length repos. bestRepo (selectBest now repos) = Some (repos ! i)
             \<and> (\<forall>j<length repos. calculateRepoScore_gs now (repos ! j)
                                    \<le> calculateRepoScore_gs now (repos ! i))
             \<and> (\<forall>j<i. calculateRepoScore_gs now (repos ! j)
                         < calculateRepoScore_gs now (repos ! i))))
   \<and> (fork repo \<and> archived repo \<and> stargazers_count repo = 0 \<and> forks_count repo = 0
        \<and> watchers_count repo = 0 \<and> Repo.description repo = None \<and> Repo.topics repo = []
        \<and> Repo.language repo = None \<and> pushed_at repo < year2025Start
      \<longrightarrow> calculateRepoScore_gs now repo = - 20)"
proof -
  have "bestRepo (selectBest now repos) = None
        \<and> topRepo (bestRepo (selectBest now repos)) = noPublicRepos
        \<and> Repository.name (topRepo (bestRepo (selectBest now repos))) = ''No Public Repos''"
    if "\<forall>r\<in>set repos. calculateRepoScore_gs now r \<le> - 1"
    using select_none [OF that] by (simp add: selectBest_def topRepo_def noPublicRepos_def)
  moreover have "\<exists>i<length repos. bestRepo (selectBest now repos) = Some (repos ! i)
             \<and> (\<forall>j<length repos. calculateRepoScore_gs now (repos ! j)
                                    \<le> calculateRepoScore_gs now (repos ! i))
             \<and> (\<forall>j<i. calculateRepoScore_gs now (repos ! j)
                         < calculateRepoScore_gs now (repos ! i))"
    if "\<exists>r\<in>set repos. - 1 < calculateRepoScore_gs now r"
    using select_first_maximum [OF that] by (simp add: selectBest_def)
  moreover have "calculateRepoScore_gs now repo = - 20"
    if "fork repo \<and> archived repo \<and> stargazers_count repo = 0 \<and> forks_count repo = 0
        \<and> watchers_count repo = 0 \<and> Repo.description repo = None \<and> Repo.topics repo = []
        \<and> Repo.language repo = None \<and> pushed_at repo < year2025Start"
    using that dead_fork_score [of repo now] by blast
  ultimately show ?thesis by blast
qed

theorem top_repo_selection_witness:
  "[deadFork, deadFork] \<noteq> []
   \<and> calculateRepoScore_gs 1767225600000 deadFork = - 20
   \<and> bestRepo (selectBest 1767225600000 [deadFork, deadFork]) = None
   \<and> Repository.name (topRepo (bestRepo (selectBest 1767225600000 [deadFork, deadFork])))
       = ''No Public Repos''
   \<and> bestRepo (selectBest 1735689600000 [deadFork, freshRepo, freshRepo]) = Some freshRepo"
proof -
  have d: "calculateRepoScore_gs now deadFork = - 20" for now
    using top_repo_selection [of "[]" now deadFork]
    by (simp add: deadFork_def year2025Start_def)
  have f: "calculateRepoScore_gs 1735689600000 freshRepo = 40"
    by (simp add: calculateRepoScore_gs_def freshRepo_def log10_def recencyPoints_gs_def
        year2025Start_def longDescription_def truthy_def Let_def)
  have "\<forall>r\<in>set [deadFork, deadFork]. calculateRepoScore_gs 1767225600000 r \<le> - 1"
    by (simp add: d)
  with top_repo_selection [of "[deadFork, deadFork]" 1767225600000 deadFork]
  have n: "bestRepo (selectBest 1767225600000 [deadFork, deadFork]) = None"
    "Repository.name (topRepo (bestRepo (selectBest 1767225600000 [deadFork, deadFork])))
       = ''No Public Repos''"
    by blast+
  have "\<exists>r\<in>set [deadFork, freshRepo, freshRepo]. - 1 < calculateRepoScore_gs 1735689600000 r"
    by (simp add: f)
  with top_repo_selection [of "[deadFork, freshRepo, freshRepo]" 1735689600000 deadFork]
  obtain i where "i < length [deadFork, freshRepo, freshRepo]"
    "bestRepo (selectBest 1735689600000 [deadFork, freshRepo, freshRepo])
       = Some ([deadFork, freshRepo, freshRepo] ! i)"
    "\<forall>j<length [deadFork, freshRepo, freshRepo].
        calculateRepoScore_gs 1735689600000 ([deadFork, freshRepo, freshRepo] ! j)
        \<le> calculateRepoScore_gs 1735689600000 ([deadFork, freshRepo, freshRepo] ! i)"
    by blast
  then have "bestRepo (selectBest 1735689600000 [deadFork, freshRepo, freshRepo]) = Some freshRepo"
    using d [of 1735689600000] f
    by (cases i) (auto simp: nth_Cons split: nat.splits)
  with n d show ?thesis by simp
qed

end
